theory Spec2Isabelle
  imports Complex_Main "HOL-Library.Multiset"
begin

section \<open>Data model\<close>

text \<open>
  Modelled from the spec: the schema file of the store is not among the sources. A
  conversation has an identifier, a unique session token, a creation and a last-update
  timestamp; a message has an identifier, the identifier of its conversation, a sender tag
  (user or assistant), a text and a creation timestamp. The field names are those the
  handlers and the README's copy of the schema use. Strings are lists of code units (what
  JavaScript's \<open>length\<close> counts); a point in time is a number of milliseconds;
  a \<open>cuid()\<close> key is a number drawn from a counter kept with the tables, so that
  no two rows ever receive the same key.
\<close>

type_synonym time = nat

datatype Sender = USER | AI

record Conversation =
  conv_id :: nat
  sessionId :: string
  createdAt :: time
  updatedAt :: time

record Message =
  msg_id :: nat
  conversationId :: nat
  sender :: Sender
  msg_text :: string
  timestamp :: time

text \<open>The request object handed to the hosted chat-completion API.\<close>

datatype Role = System | User | Assistant

record ChatMessage =
  role :: Role
  content :: string

record completion_request =
  req_model :: string
  messages :: "ChatMessage list"
  max_tokens :: nat
  temperature :: rat

text \<open>
  What one call of \<open>client.chat.completions.create\<close> can do: resolve with a completion
  whose first choice may or may not carry a content string, throw an
  \<open>OpenAI.APIError\<close> with an optional HTTP status and the provider's own message, or
  throw anything else.
\<close>

datatype provider_outcome =
    Completion "string option"
  | APIError "nat option" string
  | OtherError string

record LLMService =
  client :: "string option"
  model :: string

text \<open>
  Every call made against the persistence client and the provider is written to a journal,
  in the order the handler awaits them.
\<close>

datatype event =
    ConversationFindUnique string
  | ConversationCreate string
  | ConversationFindMany
  | ConversationUpdate nat time
  | MessageCreate nat Sender string
  | MessageFindMany nat
  | ChatCompletionsCreate completion_request

record world =
  conversation_rows :: "Conversation list"
  message_rows :: "Message list"
  cuid :: nat
  llmServiceInstance :: "LLMService option"
  journal :: "event list"

text \<open>
  What the surroundings supply during one request: the process environment, the value
  \<open>crypto.randomUUID()\<close> yields if it is called, the clock readings at the four
  places a row is stamped, and the behaviour of the provider.
\<close>

record env =
  OPENAI_API_KEY :: "string option"
  OPENAI_MODEL :: "string option"
  randomUUID :: string
  conversation_now :: time
  user_message_now :: time
  ai_message_now :: time
  update_now :: time
  chat_completions_create :: "completion_request \<Rightarrow> provider_outcome"

section \<open>Persistence client\<close>

text \<open>
  The calls of the ORM client that the handlers make, as functions on the tables. Each one
  leaves its entry in the journal.
\<close>

definition logged :: "event \<Rightarrow> world \<Rightarrow> world" where
  "logged ev w = w\<lparr>journal := journal w @ [ev]\<rparr>"

definition conversation_findUnique :: "string \<Rightarrow> world \<Rightarrow> Conversation option \<times> world" where
  "conversation_findUnique sid w =
     (find (\<lambda>c. sessionId c = sid) (conversation_rows w), logged (ConversationFindUnique sid) w)"

text \<open>
  \<open>sessionId\<close> is declared unique: inserting a second row with a stored token makes the
  client throw, which is the result \<open>None\<close> here, and stores nothing. Both timestamps of
  a new row are the clock reading at the insert.
\<close>

definition conversation_create :: "string \<Rightarrow> time \<Rightarrow> world \<Rightarrow> Conversation option \<times> world" where
  "conversation_create sid t w =
     (if sid \<in> set (map sessionId (conversation_rows w))
      then (None, logged (ConversationCreate sid) w)
      else
        (let c = \<lparr>conv_id = cuid w, sessionId = sid, createdAt = t, updatedAt = t\<rparr>
         in (Some c,
             logged (ConversationCreate sid)
               (w\<lparr>conversation_rows := conversation_rows w @ [c], cuid := Suc (cuid w)\<rparr>))))"

text \<open>
  \<open>update\<close> with \<open>where: {id}\<close> and a new \<open>updatedAt\<close>; the handler
  calls it for a row it has just found or created.
\<close>

definition conversation_update :: "nat \<Rightarrow> time \<Rightarrow> world \<Rightarrow> world" where
  "conversation_update cid t w =
     logged (ConversationUpdate cid t)
       (w\<lparr>conversation_rows :=
            map (\<lambda>c. if conv_id c = cid then c\<lparr>updatedAt := t\<rparr> else c) (conversation_rows w)\<rparr>)"

text \<open>A new message is stamped with the clock reading at its insert.\<close>

definition message_create :: "nat \<Rightarrow> Sender \<Rightarrow> string \<Rightarrow> time \<Rightarrow> world \<Rightarrow> world" where
  "message_create cid s txt t w =
     logged (MessageCreate cid s txt)
       (w\<lparr>message_rows := message_rows w @
             [\<lparr>msg_id = cuid w, conversationId = cid, sender = s, msg_text = txt, timestamp = t\<rparr>],
          cuid := Suc (cuid w)\<rparr>)"

text \<open>
  \<open>where: {conversationId}, orderBy: {timestamp: 'asc'}\<close>. The database promises no
  order among rows with equal timestamps; here they keep the order in which they were
  inserted.
\<close>

definition messages_of :: "nat \<Rightarrow> world \<Rightarrow> Message list" where
  "messages_of cid w = sort_key timestamp (filter (\<lambda>m. conversationId m = cid) (message_rows w))"

text \<open>The sender tag as the string the client hands to JavaScript.\<close>

definition Sender_name :: "Sender \<Rightarrow> string" where
  "Sender_name s = (case s of USER \<Rightarrow> ''USER'' | AI \<Rightarrow> ''AI'')"

definition message_findMany :: "nat \<Rightarrow> world \<Rightarrow> (string \<times> string) list \<times> world" where
  "message_findMany cid w =
     (map (\<lambda>m. (Sender_name (sender m), msg_text m)) (messages_of cid w),
      logged (MessageFindMany cid) w)"

section \<open>The gateway: LLMService\<close>

definition SYSTEM_PROMPT :: string where
  \<open>SYSTEM_PROMPT =
    ''You are a helpful support agent for "SpurMart", a small e-commerce store. Answer clearly and concisely.\<newline>'' @
    ''\<newline>'' @
    ''Here is what you know about our store:\<newline>'' @
    ''\<newline>'' @
    ''## Shipping Policy\<newline>'' @
    ''- We offer free shipping on orders over $50\<newline>'' @
    ''- Standard shipping takes 3-5 business days within the US\<newline>'' @
    ''- Express shipping (1-2 business days) is available for $12.99\<newline>'' @
    ''- We ship to all 50 US states and Puerto Rico\<newline>'' @
    ''- International shipping is not currently available\<newline>'' @
    ''\<newline>'' @
    ''## Return & Refund Policy\<newline>'' @
    ''- Returns are accepted within 30 days of purchase\<newline>'' @
    ''- Items must be unworn, unwashed, and in original packaging\<newline>'' @
    ''- Return shipping is free for defective items\<newline>'' @
    ''- For other returns, customer pays return shipping ($5.99 flat rate)\<newline>'' @
    ''- Refunds are processed within 5-7 business days of receiving the return\<newline>'' @
    ''- Gift cards and final sale items cannot be returned\<newline>'' @
    ''\<newline>'' @
    ''## Support Hours\<newline>'' @
    ''- Our support team is available Monday-Friday, 9 AM - 6 PM EST\<newline>'' @
    ''- Weekend support is limited to email only\<newline>'' @
    ''- Response time: typically within 2 hours during business hours\<newline>'' @
    ''\<newline>'' @
    ''## Payment Methods\<newline>'' @
    ''- We accept all major credit cards (Visa, Mastercard, Amex, Discover)\<newline>'' @
    ''- PayPal, Apple Pay, and Google Pay are also accepted\<newline>'' @
    ''- All payments are securely processed\<newline>'' @
    ''\<newline>'' @
    ''If you don't know the answer to a question, politely say you don't have that information and suggest they contact our support team at support@spurmart.com.''\<close>

text \<open>
  The constructor: a client exists when the key is present and not empty; the model name
  falls back to the default when the variable is missing or empty.
\<close>

definition new_LLMService :: "env \<Rightarrow> LLMService" where
  "new_LLMService e =
     \<lparr>client = (case OPENAI_API_KEY e of
                  None \<Rightarrow> None
                | Some apiKey \<Rightarrow> if apiKey = [] then None else Some apiKey),
      model = (case OPENAI_MODEL e of
                  None \<Rightarrow> ''gpt-4o-mini''
                | Some m \<Rightarrow> if m = [] then ''gpt-4o-mini'' else m)\<rparr>"

text \<open>A stored turn becomes a user turn when its sender string is \<open>user\<close>.\<close>

definition formatHistory :: "(string \<times> string) list \<Rightarrow> ChatMessage list" where
  "formatHistory msgs =
     map (\<lambda>(snd_name, txt). \<lparr>role = (if snd_name = ''user'' then User else Assistant), content = txt\<rparr>) msgs"

text \<open>\<open>xs.slice(-n)\<close>: the last \<open>n\<close> elements, or all of them when there are fewer.\<close>

definition slice_last :: "nat \<Rightarrow> 'a list \<Rightarrow> 'a list" where
  "slice_last n xs = drop (length xs - n) xs"

definition isConfigured :: "LLMService \<Rightarrow> bool" where
  "isConfigured svc = (client svc \<noteq> None)"

text \<open>The result object \<open>{reply, error?}\<close> is a pair; a missing \<open>error\<close> is \<open>None\<close>.\<close>

definition generateReply ::
  "LLMService \<Rightarrow> env \<Rightarrow> (string \<times> string) list \<Rightarrow> string \<Rightarrow> world \<Rightarrow> (string \<times> string option) \<times> world" where
  "generateReply svc e history userMessage w =
     (case client svc of
        None \<Rightarrow> (([], Some ''LLM service not configured. Please check API key.''), w)
      | Some _ \<Rightarrow>
          (let formattedHistory = formatHistory history;
               request = \<lparr>req_model = model svc,
                          messages = [\<lparr>role = System, content = SYSTEM_PROMPT\<rparr>]
                                     @ slice_last 10 formattedHistory
                                     @ [\<lparr>role = User, content = userMessage\<rparr>],
                          max_tokens = 500,
                          temperature = 7 / 10\<rparr>;
               w' = logged (ChatCompletionsCreate request) w
           in case chat_completions_create e request of
                Completion c \<Rightarrow>
                  ((case c of
                      None \<Rightarrow> ''I apologize, but I couldn't generate a response. Please try again.''
                    | Some txt \<Rightarrow>
                        if txt = []
                        then ''I apologize, but I couldn't generate a response. Please try again.''
                        else txt,
                    None), w')
              | APIError status raw \<Rightarrow>
                  (if status = Some 401
                   then (([], Some ''Invalid API key. Please contact support.''), w')
                   else if status = Some 429
                   then (([], Some ''Service is experiencing high demand. Please try again in a moment.''), w')
                   else if status = Some 500 \<or> status = Some 502 \<or> status = Some 503
                   then (([], Some ''Our AI service is temporarily unavailable. Please try again.''), w')
                   else (([], Some ''Something went wrong. Please try again.''), w'))
              | OtherError raw \<Rightarrow>
                  (([], Some ''Something went wrong. Please try again.''), w')))"

text \<open>The four sentences \<open>generateReply\<close> answers with when the call has thrown.\<close>

definition thrown_sentences :: "string set" where
  "thrown_sentences =
     {''Invalid API key. Please contact support.'',
      ''Service is experiencing high demand. Please try again in a moment.'',
      ''Our AI service is temporarily unavailable. Please try again.'',
      ''Something went wrong. Please try again.''}"

text \<open>The module-level singleton: built from the environment on first use, then kept.\<close>

definition getLLMService :: "env \<Rightarrow> world \<Rightarrow> LLMService \<times> world" where
  "getLLMService e w =
     (case llmServiceInstance w of
        Some svc \<Rightarrow> (svc, w)
      | None \<Rightarrow> (let svc = new_LLMService e in (svc, w\<lparr>llmServiceInstance := Some svc\<rparr>)))"

section \<open>POST message\<close>

record body =
  message :: string
  body_sessionId :: "string option"

datatype chat_response =
    JsonReply string string
  | JsonError nat string

definition MAX_MESSAGE_LENGTH :: nat where
  "MAX_MESSAGE_LENGTH = 2000"

text \<open>
  \<open>messageSchema.safeParse\<close> on a body of the schema's shape: \<open>Inl\<close> carries the
  message of the first issue.
\<close>

definition messageSchema :: "body \<Rightarrow> string + body" where
  "messageSchema b =
     (if length (message b) < 1 then Inl ''Message cannot be empty''
      else if length (message b) > MAX_MESSAGE_LENGTH then Inl ''Message too long (max 2000 characters)''
      else Inr b)"

definition fallbackReply :: string where
  "fallbackReply = ''I'm sorry, but our AI support is currently unavailable. Please contact us at support@spurmart.com for assistance.''"

text \<open>
  A string is truthy when it is present and not empty.
\<close>

definition truthy :: "string option \<Rightarrow> bool" where
  "truthy s = (case s of None \<Rightarrow> False | Some v \<Rightarrow> v \<noteq> [])"

text \<open>
  The handler is embedded in three parts, in the order of its text. First the block
  ``get or create conversation'': the lookup happens only for a truthy token, and
  \<open>sessionId || crypto.randomUUID()\<close> keeps a truthy token and draws a UUID otherwise.
  The result is \<open>None\<close> when the insert throws.
\<close>

definition getOrCreateConversation :: "env \<Rightarrow> body \<Rightarrow> world \<Rightarrow> Conversation option \<times> world" where
  "getOrCreateConversation e dat w =
     (let (found, w1) =
            (if truthy (body_sessionId dat)
             then conversation_findUnique (the (body_sessionId dat)) w
             else (None, w))
      in case found of
           Some c \<Rightarrow> (Some c, w1)
         | None \<Rightarrow>
             (let newSessionId =
                    (if truthy (body_sessionId dat) then the (body_sessionId dat)
                     else randomUUID e)
              in conversation_create newSessionId (conversation_now e) w1))"

text \<open>
  Then everything from ``save user message'' to the response, for the conversation found
  or created.
\<close>

definition saveAndReply :: "env \<Rightarrow> body \<Rightarrow> Conversation \<Rightarrow> world \<Rightarrow> chat_response \<times> world" where
  "saveAndReply e dat conversation w2 =
     (let w3 = message_create (conv_id conversation) USER (message dat) (user_message_now e) w2;
          (history, w4) = message_findMany (conv_id conversation) w3;
          (llmService, w5) = getLLMService e w4
      in if \<not> isConfigured llmService
         then (JsonReply fallbackReply (sessionId conversation),
               message_create (conv_id conversation) AI fallbackReply (ai_message_now e) w5)
         else
           (let ((reply, error), w6) = generateReply llmService e history (message dat) w5
            in if truthy error
               then (JsonError 500 (the error), w6)
               else
                 (let w7 = message_create (conv_id conversation) AI reply (ai_message_now e) w6;
                      w8 = conversation_update (conv_id conversation) (update_now e) w7
                  in (JsonReply reply (sessionId conversation), w8))))"

text \<open>
  The whole handler: validation first; an exception of the insert is caught by the
  handler's \<open>catch\<close> and answered with the generic 500.
\<close>

definition POST :: "env \<Rightarrow> body \<Rightarrow> world \<Rightarrow> chat_response \<times> world" where
  "POST e b w =
     (case messageSchema b of
        Inl issue \<Rightarrow> (JsonError 400 issue, w)
      | Inr dat \<Rightarrow>
          (case getOrCreateConversation e dat w of
             (None, w2) \<Rightarrow> (JsonError 500 ''An unexpected error occurred. Please try again.'', w2)
           | (Some conversation, w2) \<Rightarrow> saveAndReply e dat conversation w2))"

section \<open>GET history\<close>

text \<open>
  The query parameter is \<open>None\<close> when absent. A missing parameter fails the schema's type
  check with the validation library's own wording (\<open>InvalidType\<close>); an empty one fails
  \<open>min(1)\<close> with the message written in the schema.
\<close>

datatype issue_message = InvalidType | Custom string

definition historySchema :: "string option \<Rightarrow> issue_message + string" where
  "historySchema p =
     (case p of
        None \<Rightarrow> Inl InvalidType
      | Some s \<Rightarrow> if length s < 1 then Inl (Custom ''Session ID is required'') else Inr s)"

datatype history_response =
    HistoryOk "(nat \<times> Sender \<times> string \<times> time) list" string
  | HistoryError nat issue_message

definition select_message :: "Message \<Rightarrow> nat \<times> Sender \<times> string \<times> time" where
  "select_message m = (msg_id m, sender m, msg_text m, timestamp m)"

definition GET_history :: "string option \<Rightarrow> world \<Rightarrow> history_response \<times> world" where
  "GET_history p w =
     (case historySchema p of
        Inl issue \<Rightarrow> (HistoryError 400 issue, w)
      | Inr sid \<Rightarrow>
          (let (conversation, w1) = conversation_findUnique sid w
           in case conversation of
                None \<Rightarrow> (HistoryOk [] sid, w1)
              | Some c \<Rightarrow>
                  (HistoryOk (map select_message (messages_of (conv_id c) w1)) (sessionId c), w1)))"

section \<open>GET conversations\<close>

record conversation_item =
  item_id :: nat
  item_sessionId :: string
  item_createdAt :: time
  item_updatedAt :: time
  messageCount :: nat
  firstMessage :: string

text \<open>
  \<open>orderBy: {updatedAt: 'desc'}\<close> over the whole table. The database promises no
  order among rows with equal update times; here they stay in the order of their insertion.
\<close>

definition conversation_findMany :: "world \<Rightarrow> Conversation list \<times> world" where
  "conversation_findMany w =
     (rev (sort_key updatedAt (rev (conversation_rows w))), logged ConversationFindMany w)"

text \<open>
  Each row comes with its earliest message (\<open>take: 1\<close>) and the count of all its
  messages; \<open>messages[0]?.text || 'New conversation'\<close> falls back when there is no
  message or its text is empty.
\<close>

definition to_item :: "world \<Rightarrow> Conversation \<Rightarrow> conversation_item" where
  "to_item w conv =
     \<lparr>item_id = conv_id conv,
      item_sessionId = sessionId conv,
      item_createdAt = createdAt conv,
      item_updatedAt = updatedAt conv,
      messageCount = length (filter (\<lambda>m. conversationId m = conv_id conv) (message_rows w)),
      firstMessage =
        (case take 1 (messages_of (conv_id conv) w) of
           [] \<Rightarrow> ''New conversation''
         | m # _ \<Rightarrow> if msg_text m = [] then ''New conversation'' else msg_text m)\<rparr>"

definition GET_conversations :: "world \<Rightarrow> conversation_item list \<times> world" where
  "GET_conversations w =
     (let (conversations, w1) = conversation_findMany w
      in (map (to_item w1) conversations, w1))"

section \<open>Sample inputs\<close>

text \<open>
  An empty store in a fresh process, and surroundings without a credential whose provider
  is unreachable.
\<close>

definition world0 :: world where
  "world0 = \<lparr>conversation_rows = [], message_rows = [], cuid = 0,
              llmServiceInstance = None, journal = []\<rparr>"

definition env0 :: env where
  "env0 = \<lparr>OPENAI_API_KEY = None, OPENAI_MODEL = None,
            randomUUID = ''123e4567-e89b-42d3-a456-426614174000'',
            conversation_now = 10, user_message_now = 11, ai_message_now = 12, update_now = 13,
            chat_completions_create = (\<lambda>_. OtherError ''offline'')\<rparr>"

text \<open>
  A store that holds one answered exchange of session \<open>s1\<close>, in a process whose
  gateway was built without a credential.
\<close>

definition conv1 :: Conversation where
  "conv1 = \<lparr>conv_id = 0, sessionId = ''s1'', createdAt = 5, updatedAt = 5\<rparr>"

definition world1 :: world where
  "world1 = \<lparr>conversation_rows = [conv1],
              message_rows =
                [\<lparr>msg_id = 1, conversationId = 0, sender = USER, msg_text = ''hello'', timestamp = 6\<rparr>,
                 \<lparr>msg_id = 2, conversationId = 0, sender = AI, msg_text = fallbackReply, timestamp = 7\<rparr>],
              cuid = 3,
              llmServiceInstance = Some \<lparr>client = None, model = ''gpt-4o-mini''\<rparr>,
              journal = []\<rparr>"

text \<open>
  Surroundings with a credential whose provider turns every request down with status 429,
  and surroundings with a credential whose provider answers.
\<close>

definition env_429 :: env where
  "env_429 = env0\<lparr>OPENAI_API_KEY := Some ''sk-test'',
                   chat_completions_create := (\<lambda>_. APIError (Some 429) ''Rate limit reached for requests'')\<rparr>"

definition env_ok :: env where
  "env_ok = env0\<lparr>OPENAI_API_KEY := Some ''sk-test'',
                  chat_completions_create := (\<lambda>_. Completion (Some ''Returns are accepted within 30 days.''))\<rparr>"

text \<open>Two request bodies: one without a token, one with the token \<open>s1\<close>.\<close>

definition hello :: body where
  "hello = \<lparr>message = ''hello'', body_sessionId = None\<rparr>"

definition hello_s1 :: body where
  "hello_s1 = \<lparr>message = ''hello'', body_sessionId = Some ''s1''\<rparr>"

text \<open>
  Three exchanges without credential, at later and later times: two messages in session
  \<open>s1\<close>, then one in session \<open>s2\<close>, starting from the empty store.
\<close>

definition env_mid :: env where
  "env_mid = env0\<lparr>conversation_now := 20, user_message_now := 21,
                   ai_message_now := 22, update_now := 23\<rparr>"

definition env_late :: env where
  "env_late = env0\<lparr>conversation_now := 30, user_message_now := 31,
                    ai_message_now := 32, update_now := 33\<rparr>"

definition again_s1 :: body where
  "again_s1 = \<lparr>message = ''and again'', body_sessionId = Some ''s1''\<rparr>"

definition hi_s2 :: body where
  "hi_s2 = \<lparr>message = ''hi'', body_sessionId = Some ''s2''\<rparr>"

definition three_sent :: world where
  "three_sent = snd (POST env_late hi_s2 (snd (POST env_mid again_s1 (snd (POST env0 hello_s1 world0)))))"



section \<open>Properties\<close>

lemma logged_fields [simp]:
  "conversation_rows (logged ev w) = conversation_rows w"
  "message_rows (logged ev w) = message_rows w"
  "cuid (logged ev w) = cuid w"
  "llmServiceInstance (logged ev w) = llmServiceInstance w"
  "journal (logged ev w) = journal w @ [ev]"
  by (simp_all add: logged_def)

lemma message_create_fields [simp]:
  "conversation_rows (message_create cid s txt t w) = conversation_rows w"
  "message_rows (message_create cid s txt t w) = message_rows w @
     [\<lparr>msg_id = cuid w, conversationId = cid, sender = s, msg_text = txt, timestamp = t\<rparr>]"
  "cuid (message_create cid s txt t w) = Suc (cuid w)"
  "llmServiceInstance (message_create cid s txt t w) = llmServiceInstance w"
  "journal (message_create cid s txt t w) = journal w @ [MessageCreate cid s txt]"
  by (simp_all add: message_create_def)

lemma conversation_update_fields [simp]:
  "conversation_rows (conversation_update cid t w) =
     map (\<lambda>c. if conv_id c = cid then c\<lparr>updatedAt := t\<rparr> else c) (conversation_rows w)"
  "message_rows (conversation_update cid t w) = message_rows w"
  "cuid (conversation_update cid t w) = cuid w"
  "llmServiceInstance (conversation_update cid t w) = llmServiceInstance w"
  "journal (conversation_update cid t w) = journal w @ [ConversationUpdate cid t]"
  by (simp_all add: conversation_update_def)

lemma getLLMService_fields [simp]:
  "conversation_rows (snd (getLLMService e w)) = conversation_rows w"
  "message_rows (snd (getLLMService e w)) = message_rows w"
  "cuid (snd (getLLMService e w)) = cuid w"
  "journal (snd (getLLMService e w)) = journal w"
  by (simp_all add: getLLMService_def Let_def split: option.splits)

lemma message_findMany_fields [simp]:
  "snd (message_findMany cid w) = logged (MessageFindMany cid) w"
  by (simp add: message_findMany_def)

lemma generateReply_fields [simp]:
  "conversation_rows (snd (generateReply svc e h u w)) = conversation_rows w"
  "message_rows (snd (generateReply svc e h u w)) = message_rows w"
  "cuid (snd (generateReply svc e h u w)) = cuid w"
  "llmServiceInstance (snd (generateReply svc e h u w)) = llmServiceInstance w"
  by (simp_all add: generateReply_def Let_def split: option.splits provider_outcome.splits)


lemma POST_invalid:
  "messageSchema b = Inl issue \<Longrightarrow> POST e b w = (JsonError 400 issue, w)"
  by (simp add: POST_def)

lemma messageSchema_valid:
  "1 \<le> length (message b) \<Longrightarrow> length (message b) \<le> 2000 \<Longrightarrow> messageSchema b = Inr b"
  by (cases "message b") (simp_all add: messageSchema_def MAX_MESSAGE_LENGTH_def)

lemma messageSchema_invalid:
  "length (message b) = 0 \<or> 2000 < length (message b) \<Longrightarrow> \<exists>issue. messageSchema b = Inl issue"
  by (auto simp add: messageSchema_def MAX_MESSAGE_LENGTH_def)

lemma saveAndReply_status:
  "fst (saveAndReply e b c w) \<noteq> JsonError 400 err"
  by (simp add: saveAndReply_def Let_def split_beta split: option.splits)

lemma POST_valid_status:
  assumes "messageSchema b = Inr b"
  shows "fst (POST e b w) \<noteq> JsonError 400 err"
proof (cases "getOrCreateConversation e b w")
  case (Pair r w2)
  then show ?thesis
    using assms by (cases r) (simp_all add: POST_def saveAndReply_status)
qed

subsection \<open>Validation of the message (C4)\<close>

text \<open>
  C4: for a body of the schema's shape (a message string, an optional token string), POST
  answers with status 400 exactly when the message has length 0 or more than 2000, that
  is, it lets through exactly the messages of 1 to 2000 code units (2001 is refused); and
  a refused request leaves the store, and everything else, as it was.
\<close>

theorem POST_validation:
  "((\<exists>err. fst (POST e b w) = JsonError 400 err) \<longleftrightarrow>
      (length (message b) = 0 \<or> 2000 < length (message b)))
   \<and> (length (message b) = 0 \<or> 2000 < length (message b) \<longrightarrow> snd (POST e b w) = w)"
proof (cases "length (message b) = 0 \<or> 2000 < length (message b)")
  case True
  then obtain issue where "messageSchema b = Inl issue"
    using messageSchema_invalid by blast
  then have "POST e b w = (JsonError 400 issue, w)" by (rule POST_invalid)
  with True show ?thesis by simp
next
  case False
  then have "1 \<le> length (message b)" by (cases "message b") simp_all
  moreover from False have "length (message b) \<le> 2000" by simp
  ultimately have "messageSchema b = Inr b" by (rule messageSchema_valid)
  then have "\<And>err. fst (POST e b w) \<noteq> JsonError 400 err" by (rule POST_valid_status)
  with False show ?thesis by simp
qed

theorem POST_validation_witness:
  "fst (POST env0 \<lparr>message = replicate 2001 CHR ''a'', body_sessionId = None\<rparr> world0)
     = JsonError 400 ''Message too long (max 2000 characters)''
   \<and> snd (POST env0 \<lparr>message = replicate 2001 CHR ''a'', body_sessionId = None\<rparr> world0) = world0"
  using POST_validation [of env0 "\<lparr>message = replicate 2001 CHR ''a'', body_sessionId = None\<rparr>" world0]
  by (simp add: POST_def messageSchema_def MAX_MESSAGE_LENGTH_def)


subsection \<open>The request sent to the provider (C7)\<close>

lemma slice_last_formatHistory:
  "slice_last n (formatHistory h) = formatHistory (drop (length h - n) h)"
  by (simp add: slice_last_def formatHistory_def drop_map)

lemma generateReply_world:
  assumes "client svc = Some k"
  shows "snd (generateReply svc e h u w) =
           logged (ChatCompletionsCreate
             \<lparr>req_model = model svc,
              messages = \<lparr>role = System, content = SYSTEM_PROMPT\<rparr>
                         # formatHistory (drop (length h - 10) h)
                         @ [\<lparr>role = User, content = u\<rparr>],
              max_tokens = 500,
              temperature = 7 / 10\<rparr>) w"
  using assms
  by (simp add: generateReply_def Let_def slice_last_formatHistory
           split: provider_outcome.splits option.splits)



subsection \<open>History of one session (C9, C10)\<close>

lemma conversation_findUnique_simps [simp]:
  "fst (conversation_findUnique sid w) = find (\<lambda>c. sessionId c = sid) (conversation_rows w)"
  "snd (conversation_findUnique sid w) = logged (ConversationFindUnique sid) w"
  by (simp_all add: conversation_findUnique_def)

lemma messages_of_logged [simp]: "messages_of cid (logged ev w) = messages_of cid w"
  by (simp add: messages_of_def)

lemma find_sessionId: "find (\<lambda>c. sessionId c = s) cs = Some c \<Longrightarrow> sessionId c = s \<and> c \<in> set cs"
  by (auto simp add: find_Some_iff)

lemma GET_history_found:
  assumes "s \<noteq> []" and "find (\<lambda>c. sessionId c = s) (conversation_rows w) = Some c"
  shows "GET_history (Some s) w =
           (HistoryOk (map select_message (messages_of (conv_id c) w)) s,
            logged (ConversationFindUnique s) w)"
  using assms find_sessionId [OF assms(2)]
  by (cases s) (simp_all add: GET_history_def historySchema_def split_beta)

text \<open>
  C9: for a token that has a conversation, GET history answers with that token and with
  the identifier, sender, text and timestamp of every stored message of the conversation
  (each message once, and nothing else), in non-decreasing order of the stored timestamps;
  the tables and the key counter are as before.
\<close>

theorem GET_history_ordered:
  assumes "s \<noteq> []" and "find (\<lambda>c. sessionId c = s) (conversation_rows w) = Some c"
  shows "\<exists>ms. fst (GET_history (Some s) w) =
                 HistoryOk (map (\<lambda>m. (msg_id m, sender m, msg_text m, timestamp m)) ms) s
           \<and> mset ms = mset (filter (\<lambda>m. conversationId m = conv_id c) (message_rows w))
           \<and> sorted (map timestamp ms)
           \<and> conversation_rows (snd (GET_history (Some s) w)) = conversation_rows w
           \<and> message_rows (snd (GET_history (Some s) w)) = message_rows w
           \<and> cuid (snd (GET_history (Some s) w)) = cuid w"
proof -
  let ?ms = "messages_of (conv_id c) w"
  have sel: "select_message = (\<lambda>m. (msg_id m, sender m, msg_text m, timestamp m))"
    by (simp add: fun_eq_iff select_message_def)
  have answer: "fst (GET_history (Some s) w) =
      HistoryOk (map (\<lambda>m. (msg_id m, sender m, msg_text m, timestamp m)) ?ms) s"
    by (simp add: GET_history_found [OF assms] sel)
  have all: "mset ?ms = mset (filter (\<lambda>m. conversationId m = conv_id c) (message_rows w))"
    by (simp add: messages_of_def)
  have srt: "sorted (map timestamp ?ms)"
    unfolding messages_of_def by (rule sorted_sort_key)
  have same: "conversation_rows (snd (GET_history (Some s) w)) = conversation_rows w"
    "message_rows (snd (GET_history (Some s) w)) = message_rows w"
    "cuid (snd (GET_history (Some s) w)) = cuid w"
    by (simp_all add: GET_history_found [OF assms])
  show ?thesis
    by (rule exI [of _ ?ms]) (intro conjI answer all srt same)
qed

theorem GET_history_ordered_witness:
  "''s1'' \<noteq> [] \<and> find (\<lambda>c. sessionId c = ''s1'') (conversation_rows world1) = Some conv1
   \<and> fst (GET_history (Some ''s1'') world1) =
       HistoryOk [(1, USER, ''hello'', 6), (2, AI, fallbackReply, 7)] ''s1''
   \<and> conversation_rows (snd (GET_history (Some ''s1'') world1)) = conversation_rows world1
   \<and> message_rows (snd (GET_history (Some ''s1'') world1)) = message_rows world1
   \<and> cuid (snd (GET_history (Some ''s1'') world1)) = cuid world1"
proof -
  have h1: "''s1'' \<noteq> []" by simp
  have h2: "find (\<lambda>c. sessionId c = ''s1'') (conversation_rows world1) = Some conv1"
    by (simp add: world1_def conv1_def)
  from GET_history_ordered [OF h1 h2] obtain ms :: "Message list" where
    ms: "fst (GET_history (Some ''s1'') world1) =
           HistoryOk (map (\<lambda>m. (msg_id m, sender m, msg_text m, timestamp m)) ms) ''s1''"
    and same: "conversation_rows (snd (GET_history (Some ''s1'') world1)) = conversation_rows world1"
      "message_rows (snd (GET_history (Some ''s1'') world1)) = message_rows world1"
      "cuid (snd (GET_history (Some ''s1'') world1)) = cuid world1"
    by auto
  have run: "fst (GET_history (Some ''s1'') world1) =
       HistoryOk [(1, USER, ''hello'', 6), (2, AI, fallbackReply, 7)] ''s1''"
    using ms
    by (simp add: GET_history_def historySchema_def conversation_findUnique_def messages_of_def
          select_message_def logged_def split_beta world1_def conv1_def)
  show ?thesis by (intro conjI h1 h2 run same)
qed

lemma GET_history_rejected:
  "(\<exists>issue. fst (GET_history p w) = HistoryError 400 issue) \<longleftrightarrow> (p = None \<or> p = Some [])"
  by (cases p) (auto simp add: GET_history_def historySchema_def split_beta split: option.splits)

text \<open>
  C10: for a non-empty token that no conversation carries, GET history answers with
  success, an empty list of messages and the token it was given; the answer has status 400
  exactly when the parameter is missing or empty, and is an error in no other case.
\<close>

theorem GET_history_unknown:
  "(s \<noteq> [] \<and> find (\<lambda>c. sessionId c = s) (conversation_rows w) = None \<longrightarrow>
      fst (GET_history (Some s) w) = HistoryOk [] s)
   \<and> ((\<exists>issue. fst (GET_history p w) = HistoryError 400 issue) \<longleftrightarrow> (p = None \<or> p = Some []))
   \<and> (\<forall>st issue. fst (GET_history p w) = HistoryError st issue \<longrightarrow> (p = None \<or> p = Some []))"
proof (intro conjI impI allI)
  assume "s \<noteq> [] \<and> find (\<lambda>c. sessionId c = s) (conversation_rows w) = None"
  then show "fst (GET_history (Some s) w) = HistoryOk [] s"
    by (cases s) (simp_all add: GET_history_def historySchema_def split_beta)
next
  show "(\<exists>issue. fst (GET_history p w) = HistoryError 400 issue) \<longleftrightarrow> (p = None \<or> p = Some [])"
    by (rule GET_history_rejected)
next
  fix st issue
  assume "fst (GET_history p w) = HistoryError st issue"
  then show "p = None \<or> p = Some []"
    by (cases p) (auto simp add: GET_history_def historySchema_def split_beta split: option.splits if_splits)
qed

theorem GET_history_unknown_witness:
  "''s9'' \<noteq> [] \<and> find (\<lambda>c. sessionId c = ''s9'') (conversation_rows world1) = None
   \<and> fst (GET_history (Some ''s9'') world1) = HistoryOk [] ''s9''
   \<and> fst (GET_history (Some []) world1) = HistoryError 400 (Custom ''Session ID is required'')
   \<and> fst (GET_history None world1) = HistoryError 400 InvalidType"
proof -
  have h: "''s9'' \<noteq> [] \<and> find (\<lambda>c. sessionId c = ''s9'') (conversation_rows world1) = None"
    by (simp add: world1_def conv1_def)
  have "fst (GET_history (Some ''s9'') world1) = HistoryOk [] ''s9''"
    using GET_history_unknown [of "''s9''" world1 None] h by blast
  moreover have "fst (GET_history (Some []) world1) = HistoryError 400 (Custom ''Session ID is required'')"
    by (simp add: GET_history_def historySchema_def)
  moreover have "fst (GET_history None world1) = HistoryError 400 InvalidType"
    by (simp add: GET_history_def historySchema_def)
  ultimately show ?thesis using h by blast
qed


subsection \<open>The steps of POST\<close>

lemma getLLMService_instance [simp]:
  "llmServiceInstance (snd (getLLMService e w)) = Some (fst (getLLMService e w))"
  by (simp add: getLLMService_def Let_def split: option.splits)

lemma getLLMService_same_instance:
  "llmServiceInstance w' = llmServiceInstance w \<Longrightarrow> fst (getLLMService e w') = fst (getLLMService e w)"
  by (simp add: getLLMService_def Let_def split: option.splits)

lemma getLLMService_after [simp]:
  "fst (getLLMService e (logged ev w)) = fst (getLLMService e w)"
  "fst (getLLMService e (message_create cid s txt t w)) = fst (getLLMService e w)"
  by (rule getLLMService_same_instance, simp)+

lemma getOrCreate_keeps [simp]:
  "message_rows (snd (getOrCreateConversation e b w)) = message_rows w"
  "llmServiceInstance (snd (getOrCreateConversation e b w)) = llmServiceInstance w"
  by (simp_all add: getOrCreateConversation_def conversation_create_def Let_def split_beta
        split: option.splits)

lemma find_None_sessionId:
  "find (\<lambda>c. sessionId c = s) cs = None \<longleftrightarrow> s \<notin> set (map sessionId cs)"
  by (auto simp add: find_None_iff)

lemma getOrCreate_found:
  assumes "body_sessionId b = Some s" and "s \<noteq> []"
    and "find (\<lambda>c. sessionId c = s) (conversation_rows w) = Some c"
  shows "getOrCreateConversation e b w = (Some c, logged (ConversationFindUnique s) w)"
  using assms by (simp add: getOrCreateConversation_def truthy_def split_beta)

lemma getOrCreate_adopt:
  assumes "body_sessionId b = Some s" and "s \<noteq> []"
    and "find (\<lambda>c. sessionId c = s) (conversation_rows w) = None"
  shows "fst (getOrCreateConversation e b w) =
           Some \<lparr>conv_id = cuid w, sessionId = s,
                 createdAt = conversation_now e, updatedAt = conversation_now e\<rparr>"
    and "conversation_rows (snd (getOrCreateConversation e b w)) = conversation_rows w @
           [\<lparr>conv_id = cuid w, sessionId = s,
             createdAt = conversation_now e, updatedAt = conversation_now e\<rparr>]"
    and "cuid (snd (getOrCreateConversation e b w)) = Suc (cuid w)"
    and "journal (snd (getOrCreateConversation e b w)) =
           journal w @ [ConversationFindUnique s, ConversationCreate s]"
  using assms find_None_sessionId [of s "conversation_rows w"]
  by (simp_all add: getOrCreateConversation_def conversation_create_def truthy_def split_beta Let_def)

lemma getOrCreate_mint:
  assumes "\<not> truthy (body_sessionId b)"
    and "randomUUID e \<notin> set (map sessionId (conversation_rows w))"
  shows "fst (getOrCreateConversation e b w) =
           Some \<lparr>conv_id = cuid w, sessionId = randomUUID e,
                 createdAt = conversation_now e, updatedAt = conversation_now e\<rparr>"
    and "conversation_rows (snd (getOrCreateConversation e b w)) = conversation_rows w @
           [\<lparr>conv_id = cuid w, sessionId = randomUUID e,
             createdAt = conversation_now e, updatedAt = conversation_now e\<rparr>]"
    and "cuid (snd (getOrCreateConversation e b w)) = Suc (cuid w)"
    and "journal (snd (getOrCreateConversation e b w)) =
           journal w @ [ConversationCreate (randomUUID e)]"
  using assms
  by (simp_all add: getOrCreateConversation_def conversation_create_def Let_def)

lemma getOrCreate_collision:
  assumes "\<not> truthy (body_sessionId b)"
    and "randomUUID e \<in> set (map sessionId (conversation_rows w))"
  shows "getOrCreateConversation e b w = (None, logged (ConversationCreate (randomUUID e)) w)"
  using assms
  by (simp add: getOrCreateConversation_def conversation_create_def Let_def)

text \<open>
  With a token, or with a drawn UUID that is not stored: a conversation comes out, it is a
  row of the table, and the table is as before or has this one row more.
\<close>

lemma getOrCreate_succeeds:
  assumes "truthy (body_sessionId b) \<or> randomUUID e \<notin> set (map sessionId (conversation_rows w))"
  shows "\<exists>c. fst (getOrCreateConversation e b w) = Some c
           \<and> c \<in> set (conversation_rows (snd (getOrCreateConversation e b w)))
           \<and> (truthy (body_sessionId b) \<longrightarrow> sessionId c = the (body_sessionId b))
           \<and> (conversation_rows (snd (getOrCreateConversation e b w)) = conversation_rows w
               \<or> conversation_rows (snd (getOrCreateConversation e b w)) = conversation_rows w @ [c]
                 \<and> updatedAt c = conversation_now e)
           \<and> (\<exists>pre. journal (snd (getOrCreateConversation e b w)) = journal w @ pre
                  \<and> (\<forall>cid t. ConversationUpdate cid t \<notin> set pre))"
proof (cases "truthy (body_sessionId b)")
  case True
  then obtain s where s: "body_sessionId b = Some s" "s \<noteq> []"
    by (auto simp add: truthy_def split: option.splits)
  show ?thesis
  proof (cases "find (\<lambda>c. sessionId c = s) (conversation_rows w)")
    case None
    from getOrCreate_adopt [OF s None, of e] s show ?thesis by simp
  next
    case (Some c)
    from getOrCreate_found [OF s Some, of e] s find_sessionId [OF Some] show ?thesis by simp
  qed
next
  case False
  with assms have fresh: "randomUUID e \<notin> set (map sessionId (conversation_rows w))" by simp
  from getOrCreate_mint [OF False fresh] False show ?thesis by simp
qed


lemma saveAndReply_fallback:
  assumes "\<not> isConfigured (fst (getLLMService e w2))"
  shows "fst (saveAndReply e b c w2) = JsonReply fallbackReply (sessionId c)"
    and "message_rows (snd (saveAndReply e b c w2)) = message_rows w2 @
           [\<lparr>msg_id = cuid w2, conversationId = conv_id c, sender = USER,
             msg_text = message b, timestamp = user_message_now e\<rparr>,
            \<lparr>msg_id = Suc (cuid w2), conversationId = conv_id c, sender = AI,
             msg_text = fallbackReply, timestamp = ai_message_now e\<rparr>]"
    and "conversation_rows (snd (saveAndReply e b c w2)) = conversation_rows w2"
    and "journal (snd (saveAndReply e b c w2)) = journal w2 @
           [MessageCreate (conv_id c) USER (message b), MessageFindMany (conv_id c),
            MessageCreate (conv_id c) AI fallbackReply]"
  using assms by (simp_all add: saveAndReply_def Let_def split_beta)

lemma generateReply_failure:
  assumes "client svc = Some k"
    and "\<forall>req. \<exists>st raw. chat_completions_create e req = APIError st raw
                       \<or> chat_completions_create e req = OtherError raw"
  shows "\<exists>err. fst (generateReply svc e h u w) = ([], Some err)
           \<and> err \<in> thrown_sentences"
proof -
  let ?req = "\<lparr>req_model = model svc,
               messages = [\<lparr>role = System, content = SYSTEM_PROMPT\<rparr>]
                          @ slice_last 10 (formatHistory h)
                          @ [\<lparr>role = User, content = u\<rparr>],
               max_tokens = 500, temperature = 7 / 10\<rparr>"
  from assms(2) obtain st raw where
    "chat_completions_create e ?req = APIError st raw \<or> chat_completions_create e ?req = OtherError raw"
    by blast
  then show ?thesis
  proof
    assume "chat_completions_create e ?req = APIError st raw"
    with assms(1) show ?thesis by (simp add: generateReply_def Let_def thrown_sentences_def)
  next
    assume "chat_completions_create e ?req = OtherError raw"
    with assms(1) show ?thesis by (simp add: generateReply_def Let_def thrown_sentences_def)
  qed
qed

lemma saveAndReply_gateway_error:
  assumes "client (fst (getLLMService e w2)) = Some k"
    and "\<forall>req. \<exists>st raw. chat_completions_create e req = APIError st raw
                       \<or> chat_completions_create e req = OtherError raw"
  shows "\<exists>err. fst (saveAndReply e b c w2) = JsonError 500 err
           \<and> err \<in> thrown_sentences"
    and "message_rows (snd (saveAndReply e b c w2)) = message_rows w2 @
           [\<lparr>msg_id = cuid w2, conversationId = conv_id c, sender = USER,
             msg_text = message b, timestamp = user_message_now e\<rparr>]"
    and "conversation_rows (snd (saveAndReply e b c w2)) = conversation_rows w2"
    and "\<exists>req. journal (snd (saveAndReply e b c w2)) = journal w2 @
           [MessageCreate (conv_id c) USER (message b), MessageFindMany (conv_id c),
            ChatCompletionsCreate req]"
proof -
  let ?w3 = "message_create (conv_id c) USER (message b) (user_message_now e) w2"
  let ?h = "fst (message_findMany (conv_id c) ?w3)"
  let ?w5 = "snd (getLLMService e (logged (MessageFindMany (conv_id c)) ?w3))"
  let ?svc = "fst (getLLMService e w2)"
  let ?g = "generateReply ?svc e ?h (message b) ?w5"
  from generateReply_failure [OF assms, of ?h "message b" ?w5]
  obtain err where err: "fst ?g = ([], Some err)"
    "err \<in> thrown_sentences"
    by blast
  have conf: "isConfigured ?svc" using assms(1) by (simp add: isConfigured_def)
  have ne: "err \<noteq> []" using err(2) by (auto simp add: thrown_sentences_def)
  have res: "saveAndReply e b c w2 = (JsonError 500 err, snd ?g)"
    using conf err(1) ne by (simp add: saveAndReply_def Let_def split_beta truthy_def)
  show "\<exists>err. fst (saveAndReply e b c w2) = JsonError 500 err
           \<and> err \<in> thrown_sentences"
    using res err(2) by simp
  show "message_rows (snd (saveAndReply e b c w2)) = message_rows w2 @
           [\<lparr>msg_id = cuid w2, conversationId = conv_id c, sender = USER,
             msg_text = message b, timestamp = user_message_now e\<rparr>]"
    by (simp add: res)
  show "conversation_rows (snd (saveAndReply e b c w2)) = conversation_rows w2"
    by (simp add: res)
  show "\<exists>req. journal (snd (saveAndReply e b c w2)) = journal w2 @
           [MessageCreate (conv_id c) USER (message b), MessageFindMany (conv_id c),
            ChatCompletionsCreate req]"
    by (simp add: res generateReply_world [OF assms(1)])
qed

lemma POST_valid:
  assumes "1 \<le> length (message b)" and "length (message b) \<le> 2000"
    and "fst (getOrCreateConversation e b w) = Some c"
  shows "POST e b w = saveAndReply e b c (snd (getOrCreateConversation e b w))"
  using messageSchema_valid [OF assms(1,2)] assms(3)
  by (cases "getOrCreateConversation e b w") (simp add: POST_def)


text \<open>The equations that let the simplifier run a handler on a given input.\<close>

lemmas run_defs =
  POST_def messageSchema_def MAX_MESSAGE_LENGTH_def getOrCreateConversation_def truthy_def
  conversation_findUnique_def conversation_create_def saveAndReply_def message_findMany_def
  messages_of_def Sender_name_def getLLMService_def new_LLMService_def isConfigured_def
  generateReply_def formatHistory_def slice_last_def message_create_def conversation_update_def
  logged_def Let_def split_beta

subsection \<open>No credential: the fallback sentence (C5)\<close>

text \<open>
  C5: a valid request to a gateway without credential is answered with success: the reply
  is the fixed fallback sentence and comes with the token of the conversation (the token
  sent, when one was sent); the store gains exactly two messages of that conversation, the
  user's turn and then the fallback sentence as the assistant's turn. When no token was
  sent, the UUID drawn is taken to be unused, as \<open>crypto.randomUUID\<close> promises.
\<close>

theorem POST_without_credential:
  assumes "1 \<le> length (message b)" and "length (message b) \<le> 2000"
    and "\<not> isConfigured (fst (getLLMService e w))"
    and "truthy (body_sessionId b) \<or> randomUUID e \<notin> set (map sessionId (conversation_rows w))"
  shows "\<exists>c i j. c \<in> set (conversation_rows (snd (POST e b w)))
           \<and> (truthy (body_sessionId b) \<longrightarrow> sessionId c = the (body_sessionId b))
           \<and> fst (POST e b w) = JsonReply fallbackReply (sessionId c)
           \<and> message_rows (snd (POST e b w)) = message_rows w @
                [\<lparr>msg_id = i, conversationId = conv_id c, sender = USER,
                  msg_text = message b, timestamp = user_message_now e\<rparr>,
                 \<lparr>msg_id = j, conversationId = conv_id c, sender = AI,
                  msg_text = fallbackReply, timestamp = ai_message_now e\<rparr>]"
proof -
  let ?w2 = "snd (getOrCreateConversation e b w)"
  from getOrCreate_succeeds [OF assms(4)] obtain c where
    c: "fst (getOrCreateConversation e b w) = Some c" "c \<in> set (conversation_rows ?w2)"
       "truthy (body_sessionId b) \<longrightarrow> sessionId c = the (body_sessionId b)"
    by auto
  have post: "POST e b w = saveAndReply e b c ?w2"
    using assms(1,2) c(1) by (rule POST_valid)
  have "fst (getLLMService e ?w2) = fst (getLLMService e w)"
    by (rule getLLMService_same_instance) simp
  with assms(3) have off: "\<not> isConfigured (fst (getLLMService e ?w2))" by simp
  note fb = saveAndReply_fallback [OF off, of b c]
  have "c \<in> set (conversation_rows (snd (POST e b w)))"
    using c(2) by (simp add: post fb(3))
  moreover have "fst (POST e b w) = JsonReply fallbackReply (sessionId c)"
    by (simp add: post fb(1))
  moreover have "message_rows (snd (POST e b w)) = message_rows w @
      [\<lparr>msg_id = cuid ?w2, conversationId = conv_id c, sender = USER,
        msg_text = message b, timestamp = user_message_now e\<rparr>,
       \<lparr>msg_id = Suc (cuid ?w2), conversationId = conv_id c, sender = AI,
        msg_text = fallbackReply, timestamp = ai_message_now e\<rparr>]"
    by (simp add: post fb(2))
  ultimately show ?thesis using c(3) by (intro exI conjI)
qed

theorem POST_without_credential_witness:
  "1 \<le> length (message hello) \<and> length (message hello) \<le> 2000
   \<and> \<not> isConfigured (fst (getLLMService env0 world0))
   \<and> randomUUID env0 \<notin> set (map sessionId (conversation_rows world0))
   \<and> fst (POST env0 hello world0) = JsonReply fallbackReply ''123e4567-e89b-42d3-a456-426614174000''
   \<and> map msg_text (message_rows (snd (POST env0 hello world0))) = [''hello'', fallbackReply]"
proof -
  have h1: "1 \<le> length (message hello)" by (simp add: hello_def)
  have h2: "length (message hello) \<le> 2000" by (simp add: hello_def)
  have h3: "\<not> isConfigured (fst (getLLMService env0 world0))"
    by (simp add: getLLMService_def world0_def env0_def new_LLMService_def isConfigured_def Let_def)
  have h4: "randomUUID env0 \<notin> set (map sessionId (conversation_rows world0))"
    by (simp add: world0_def)
  from POST_without_credential [OF h1 h2 h3 disjI2 [OF h4]] obtain c i j where
    c: "c \<in> set (conversation_rows (snd (POST env0 hello world0)))"
       "fst (POST env0 hello world0) = JsonReply fallbackReply (sessionId c)"
       "message_rows (snd (POST env0 hello world0)) = message_rows world0 @
          [\<lparr>msg_id = i, conversationId = conv_id c, sender = USER,
            msg_text = message hello, timestamp = user_message_now env0\<rparr>,
           \<lparr>msg_id = j, conversationId = conv_id c, sender = AI,
            msg_text = fallbackReply, timestamp = ai_message_now env0\<rparr>]"
    by auto
  have rows: "conversation_rows (snd (POST env0 hello world0)) =
      [\<lparr>conv_id = 0, sessionId = ''123e4567-e89b-42d3-a456-426614174000'',
        createdAt = 10, updatedAt = 10\<rparr>]"
    by (simp add: run_defs hello_def world0_def env0_def)
  from c(1) have "sessionId c = ''123e4567-e89b-42d3-a456-426614174000''"
    by (simp add: rows)
  with c(2) have r: "fst (POST env0 hello world0) =
      JsonReply fallbackReply ''123e4567-e89b-42d3-a456-426614174000''" by simp
  have m: "map msg_text (message_rows (snd (POST env0 hello world0))) = [''hello'', fallbackReply]"
    by (subst c(3)) (simp add: world0_def hello_def)
  show ?thesis by (intro conjI h1 h2 h3 h4 r m)
qed


subsection \<open>A failing gateway call (C3)\<close>

text \<open>
  C3: a valid request to a configured gateway whose provider call throws is answered with
  status 500 and one of the four fixed sentences, whatever the provider's own message was.
  The store has gained the user's turn and no other message; the conversation table is as
  it was, or has gained the conversation created for this request, whose update time is
  its creation time; no update of a conversation was issued. When no token was sent, the
  UUID drawn is taken to be unused.
\<close>

theorem POST_gateway_failure:
  assumes "1 \<le> length (message b)" and "length (message b) \<le> 2000"
    and "isConfigured (fst (getLLMService e w))"
    and "truthy (body_sessionId b) \<or> randomUUID e \<notin> set (map sessionId (conversation_rows w))"
    and "\<forall>req. \<exists>st raw. chat_completions_create e req = APIError st raw
                       \<or> chat_completions_create e req = OtherError raw"
  shows "\<exists>err c i evs. fst (POST e b w) = JsonError 500 err \<and> err \<in> thrown_sentences
           \<and> message_rows (snd (POST e b w)) = message_rows w @
                [\<lparr>msg_id = i, conversationId = conv_id c, sender = USER,
                  msg_text = message b, timestamp = user_message_now e\<rparr>]
           \<and> c \<in> set (conversation_rows (snd (POST e b w)))
           \<and> (conversation_rows (snd (POST e b w)) = conversation_rows w
               \<or> conversation_rows (snd (POST e b w)) = conversation_rows w @ [c]
                 \<and> updatedAt c = conversation_now e)
           \<and> journal (snd (POST e b w)) = journal w @ evs
           \<and> (\<forall>cid t. ConversationUpdate cid t \<notin> set evs)"
proof -
  let ?w2 = "snd (getOrCreateConversation e b w)"
  from getOrCreate_succeeds [OF assms(4)] obtain c pre where
    c: "fst (getOrCreateConversation e b w) = Some c" "c \<in> set (conversation_rows ?w2)"
       "conversation_rows ?w2 = conversation_rows w
        \<or> conversation_rows ?w2 = conversation_rows w @ [c] \<and> updatedAt c = conversation_now e"
       "journal ?w2 = journal w @ pre" "\<forall>cid t. ConversationUpdate cid t \<notin> set pre"
    by auto
  have post: "POST e b w = saveAndReply e b c ?w2"
    using assms(1,2) c(1) by (rule POST_valid)
  have "fst (getLLMService e ?w2) = fst (getLLMService e w)"
    by (rule getLLMService_same_instance) simp
  with assms(3) obtain k where k: "client (fst (getLLMService e ?w2)) = Some k"
    by (auto simp add: isConfigured_def)
  note ge = saveAndReply_gateway_error [OF k assms(5), of b c]
  from ge(1) obtain err where
    err: "fst (POST e b w) = JsonError 500 err" "err \<in> thrown_sentences"
    by (auto simp add: post)
  from ge(4) obtain req where
    req: "journal (snd (POST e b w)) = journal w @ (pre @
           [MessageCreate (conv_id c) USER (message b), MessageFindMany (conv_id c),
            ChatCompletionsCreate req])"
    by (auto simp add: post c(4))
  have no_update: "\<forall>cid t. ConversationUpdate cid t \<notin> set (pre @
           [MessageCreate (conv_id c) USER (message b), MessageFindMany (conv_id c),
            ChatCompletionsCreate req])"
    using c(5) by simp
  have rows: "message_rows (snd (POST e b w)) = message_rows w @
                [\<lparr>msg_id = cuid ?w2, conversationId = conv_id c, sender = USER,
                  msg_text = message b, timestamp = user_message_now e\<rparr>]"
    by (simp add: post ge(2))
  have convs: "conversation_rows (snd (POST e b w)) = conversation_rows ?w2"
    by (simp add: post ge(3))
  have "c \<in> set (conversation_rows (snd (POST e b w)))"
    using c(2) by (simp add: convs)
  moreover have "conversation_rows (snd (POST e b w)) = conversation_rows w
       \<or> conversation_rows (snd (POST e b w)) = conversation_rows w @ [c]
         \<and> updatedAt c = conversation_now e"
    using c(3) by (simp add: convs)
  ultimately show ?thesis
    using err rows req no_update by (intro exI conjI)
qed

theorem POST_gateway_failure_witness:
  "1 \<le> length (message hello_s1) \<and> length (message hello_s1) \<le> 2000
   \<and> isConfigured (fst (getLLMService env_429 world0))
   \<and> randomUUID env_429 \<notin> set (map sessionId (conversation_rows world0))
   \<and> (\<forall>req. \<exists>st raw. chat_completions_create env_429 req = APIError st raw
                     \<or> chat_completions_create env_429 req = OtherError raw)
   \<and> (\<exists>err c i evs. fst (POST env_429 hello_s1 world0) = JsonError 500 err
           \<and> err \<in> thrown_sentences
           \<and> message_rows (snd (POST env_429 hello_s1 world0)) = message_rows world0 @
                [\<lparr>msg_id = i, conversationId = conv_id c, sender = USER,
                  msg_text = message hello_s1, timestamp = user_message_now env_429\<rparr>]
           \<and> c \<in> set (conversation_rows (snd (POST env_429 hello_s1 world0)))
           \<and> (conversation_rows (snd (POST env_429 hello_s1 world0)) = conversation_rows world0
               \<or> conversation_rows (snd (POST env_429 hello_s1 world0)) = conversation_rows world0 @ [c]
                 \<and> updatedAt c = conversation_now env_429)
           \<and> journal (snd (POST env_429 hello_s1 world0)) = journal world0 @ evs
           \<and> (\<forall>cid t. ConversationUpdate cid t \<notin> set evs))
   \<and> fst (POST env_429 hello_s1 world0) =
       JsonError 500 ''Service is experiencing high demand. Please try again in a moment.''"
proof -
  have h1: "1 \<le> length (message hello_s1)" by (simp add: hello_s1_def)
  have h2: "length (message hello_s1) \<le> 2000" by (simp add: hello_s1_def)
  have h3: "isConfigured (fst (getLLMService env_429 world0))"
    by (simp add: getLLMService_def world0_def env_429_def env0_def new_LLMService_def
          isConfigured_def Let_def)
  have h4: "randomUUID env_429 \<notin> set (map sessionId (conversation_rows world0))"
    by (simp add: world0_def)
  have h5: "\<forall>req. \<exists>st raw. chat_completions_create env_429 req = APIError st raw
                     \<or> chat_completions_create env_429 req = OtherError raw"
    by (simp add: env_429_def env0_def)
  have r: "fst (POST env_429 hello_s1 world0) =
       JsonError 500 ''Service is experiencing high demand. Please try again in a moment.''"
    by (simp add: run_defs hello_s1_def world0_def env_429_def env0_def)
  show ?thesis
    by (intro conjI h1 h2 h3 h4 h5 r POST_gateway_failure [OF h1 h2 h3 disjI2 [OF h4] h5])
qed


subsection \<open>The utterance reaches the provider twice (C6)\<close>












subsection \<open>Which conversation a request is attached to (C1)\<close>

lemma saveAndReply_shape:
  shows "(\<exists>r. fst (saveAndReply e b c w2) = JsonReply r (sessionId c))
         \<or> (\<exists>err. fst (saveAndReply e b c w2) = JsonError 500 err)"
    and "map sessionId (conversation_rows (snd (saveAndReply e b c w2))) =
           map sessionId (conversation_rows w2)"
    and "\<exists>rest. message_rows (snd (saveAndReply e b c w2)) = message_rows w2 @
           \<lparr>msg_id = cuid w2, conversationId = conv_id c, sender = USER,
             msg_text = message b, timestamp = user_message_now e\<rparr> # rest"
proof -
  let ?w3 = "message_create (conv_id c) USER (message b) (user_message_now e) w2"
  let ?h = "fst (message_findMany (conv_id c) ?w3)"
  let ?w5 = "snd (getLLMService e (logged (MessageFindMany (conv_id c)) ?w3))"
  let ?svc = "fst (getLLMService e w2)"
  let ?g = "generateReply ?svc e ?h (message b) ?w5"
  have same: "map sessionId (map (\<lambda>x. if conv_id x = conv_id c then x\<lparr>updatedAt := update_now e\<rparr> else x) cs)
                = map sessionId cs" for cs :: "Conversation list"
    by (induction cs) simp_all
  consider (off) "\<not> isConfigured ?svc"
    | (err) "isConfigured ?svc" "truthy (snd (fst ?g))"
    | (ok) "isConfigured ?svc" "\<not> truthy (snd (fst ?g))"
    by blast
  then have "((\<exists>r. fst (saveAndReply e b c w2) = JsonReply r (sessionId c))
         \<or> (\<exists>err. fst (saveAndReply e b c w2) = JsonError 500 err))
     \<and> map sessionId (conversation_rows (snd (saveAndReply e b c w2))) =
           map sessionId (conversation_rows w2)
     \<and> (\<exists>rest. message_rows (snd (saveAndReply e b c w2)) = message_rows w2 @
           \<lparr>msg_id = cuid w2, conversationId = conv_id c, sender = USER,
             msg_text = message b, timestamp = user_message_now e\<rparr> # rest)"
  proof cases
    case off
    then show ?thesis by (simp add: saveAndReply_fallback)
  next
    case err
    then have "saveAndReply e b c w2 = (JsonError 500 (the (snd (fst ?g))), snd ?g)"
      by (simp add: saveAndReply_def Let_def split_beta)
    then show ?thesis by simp
  next
    case ok
    then have "saveAndReply e b c w2 =
        (JsonReply (fst (fst ?g)) (sessionId c),
         conversation_update (conv_id c) (update_now e)
           (message_create (conv_id c) AI (fst (fst ?g)) (ai_message_now e) (snd ?g)))"
      by (simp add: saveAndReply_def Let_def split_beta)
    then show ?thesis by (simp add: same)
  qed
  then show "(\<exists>r. fst (saveAndReply e b c w2) = JsonReply r (sessionId c))
         \<or> (\<exists>err. fst (saveAndReply e b c w2) = JsonError 500 err)"
    and "map sessionId (conversation_rows (snd (saveAndReply e b c w2))) =
           map sessionId (conversation_rows w2)"
    and "\<exists>rest. message_rows (snd (saveAndReply e b c w2)) = message_rows w2 @
           \<lparr>msg_id = cuid w2, conversationId = conv_id c, sender = USER,
             msg_text = message b, timestamp = user_message_now e\<rparr> # rest"
    by simp_all
qed

lemma POST_found:
  assumes "1 \<le> length (message b)" and "length (message b) \<le> 2000"
    and "body_sessionId b = Some s" and "s \<noteq> []"
    and "find (\<lambda>c. sessionId c = s) (conversation_rows w) = Some c"
  shows "map sessionId (conversation_rows (snd (POST e b w))) = map sessionId (conversation_rows w)"
    and "(\<exists>r. fst (POST e b w) = JsonReply r s) \<or> (\<exists>err. fst (POST e b w) = JsonError 500 err)"
    and "\<exists>rest. message_rows (snd (POST e b w)) = message_rows w @
           \<lparr>msg_id = cuid w, conversationId = conv_id c, sender = USER,
             msg_text = message b, timestamp = user_message_now e\<rparr> # rest"
proof -
  note goc = getOrCreate_found [OF assms(3-5), of e]
  have post: "POST e b w = saveAndReply e b c (logged (ConversationFindUnique s) w)"
    using POST_valid [OF assms(1,2), of e w c] goc by simp
  have sid: "sessionId c = s" using find_sessionId [OF assms(5)] by simp
  note sh = saveAndReply_shape [of e b c "logged (ConversationFindUnique s) w"]
  from sh(2) show "map sessionId (conversation_rows (snd (POST e b w))) = map sessionId (conversation_rows w)"
    by (simp add: post)
  from sh(1) show "(\<exists>r. fst (POST e b w) = JsonReply r s) \<or> (\<exists>err. fst (POST e b w) = JsonError 500 err)"
    by (simp add: post sid)
  from sh(3) show "\<exists>rest. message_rows (snd (POST e b w)) = message_rows w @
           \<lparr>msg_id = cuid w, conversationId = conv_id c, sender = USER,
             msg_text = message b, timestamp = user_message_now e\<rparr> # rest"
    by (simp add: post)
qed

lemma POST_created:
  assumes "1 \<le> length (message b)" and "length (message b) \<le> 2000"
    and "fst (getOrCreateConversation e b w) =
           Some \<lparr>conv_id = cuid w, sessionId = s, createdAt = t, updatedAt = t\<rparr>"
    and "conversation_rows (snd (getOrCreateConversation e b w)) = conversation_rows w @
           [\<lparr>conv_id = cuid w, sessionId = s, createdAt = t, updatedAt = t\<rparr>]"
  shows "map sessionId (conversation_rows (snd (POST e b w))) = map sessionId (conversation_rows w) @ [s]"
    and "(\<exists>r. fst (POST e b w) = JsonReply r s) \<or> (\<exists>err. fst (POST e b w) = JsonError 500 err)"
proof -
  let ?c = "\<lparr>conv_id = cuid w, sessionId = s, createdAt = t, updatedAt = t\<rparr>"
  let ?w2 = "snd (getOrCreateConversation e b w)"
  have post: "POST e b w = saveAndReply e b ?c ?w2"
    using assms(1-3) by (rule POST_valid)
  note sh = saveAndReply_shape [of e b ?c ?w2]
  from sh(2) show "map sessionId (conversation_rows (snd (POST e b w))) = map sessionId (conversation_rows w) @ [s]"
    by (simp add: post assms(4))
  from sh(1) show "(\<exists>r. fst (POST e b w) = JsonReply r s) \<or> (\<exists>err. fst (POST e b w) = JsonError 500 err)"
    by (simp add: post)
qed

lemma POST_collision:
  assumes "1 \<le> length (message b)" and "length (message b) \<le> 2000"
    and "\<not> truthy (body_sessionId b)"
    and "randomUUID e \<in> set (map sessionId (conversation_rows w))"
  shows "POST e b w = (JsonError 500 ''An unexpected error occurred. Please try again.'',
                       logged (ConversationCreate (randomUUID e)) w)"
  using messageSchema_valid [OF assms(1,2)] getOrCreate_collision [OF assms(3,4)]
  by (simp add: POST_def)


text \<open>
  C1, as the code has it: for a valid request,
  \<^item> a non-empty token that a conversation carries: no conversation is created, the user's
    turn is stored under that conversation, and a reply carries the same token;
  \<^item> a non-empty token that no conversation carries: a conversation is created under the
    token that was sent (nothing is minted), and a reply carries that token;
  \<^item> no token, or an empty one: the UUID drawn is the token; when it is not stored yet, a
    conversation is created under it and a reply carries it; when it is stored already, the
    insert throws, nothing is stored and the answer is the generic 500.
  In the first three cases the only other answer is a 500, which carries no token. The
  token of a reply is never empty, a drawn UUID not being empty, and it is the token of a
  stored conversation.
\<close>

theorem POST_session_resolution:
  assumes "1 \<le> length (message b)" and "length (message b) \<le> 2000"
    and "randomUUID e \<noteq> []"
  shows "(\<forall>s c. body_sessionId b = Some s \<and> s \<noteq> []
             \<and> find (\<lambda>c. sessionId c = s) (conversation_rows w) = Some c \<longrightarrow>
            map sessionId (conversation_rows (snd (POST e b w))) = map sessionId (conversation_rows w)
            \<and> ((\<exists>r. fst (POST e b w) = JsonReply r s) \<or> (\<exists>err. fst (POST e b w) = JsonError 500 err))
            \<and> (\<exists>rest. message_rows (snd (POST e b w)) = message_rows w @
                   \<lparr>msg_id = cuid w, conversationId = conv_id c, sender = USER,
                     msg_text = message b, timestamp = user_message_now e\<rparr> # rest))
       \<and> (\<forall>s. body_sessionId b = Some s \<and> s \<noteq> []
             \<and> find (\<lambda>c. sessionId c = s) (conversation_rows w) = None \<longrightarrow>
            map sessionId (conversation_rows (snd (POST e b w))) = map sessionId (conversation_rows w) @ [s]
            \<and> ((\<exists>r. fst (POST e b w) = JsonReply r s) \<or> (\<exists>err. fst (POST e b w) = JsonError 500 err)))
       \<and> (\<not> truthy (body_sessionId b)
             \<and> randomUUID e \<notin> set (map sessionId (conversation_rows w)) \<longrightarrow>
            map sessionId (conversation_rows (snd (POST e b w))) =
              map sessionId (conversation_rows w) @ [randomUUID e]
            \<and> ((\<exists>r. fst (POST e b w) = JsonReply r (randomUUID e))
                \<or> (\<exists>err. fst (POST e b w) = JsonError 500 err)))
       \<and> (\<not> truthy (body_sessionId b)
             \<and> randomUUID e \<in> set (map sessionId (conversation_rows w)) \<longrightarrow>
            fst (POST e b w) = JsonError 500 ''An unexpected error occurred. Please try again.''
            \<and> conversation_rows (snd (POST e b w)) = conversation_rows w
            \<and> message_rows (snd (POST e b w)) = message_rows w)
       \<and> (\<forall>r t. fst (POST e b w) = JsonReply r t \<longrightarrow>
            t \<noteq> [] \<and> t \<in> set (map sessionId (conversation_rows (snd (POST e b w)))))"
proof -
  note valid = assms(1,2)
  have found: "map sessionId (conversation_rows (snd (POST e b w))) = map sessionId (conversation_rows w)
            \<and> ((\<exists>r. fst (POST e b w) = JsonReply r s) \<or> (\<exists>err. fst (POST e b w) = JsonError 500 err))
            \<and> (\<exists>rest. message_rows (snd (POST e b w)) = message_rows w @
                   \<lparr>msg_id = cuid w, conversationId = conv_id c, sender = USER,
                     msg_text = message b, timestamp = user_message_now e\<rparr> # rest)"
    if "body_sessionId b = Some s \<and> s \<noteq> [] \<and> find (\<lambda>c. sessionId c = s) (conversation_rows w) = Some c"
    for s c
  proof -
    from that have h: "body_sessionId b = Some s" "s \<noteq> []"
      "find (\<lambda>c. sessionId c = s) (conversation_rows w) = Some c" by simp_all
    show ?thesis by (intro conjI POST_found [OF valid h])
  qed
  have adopted: "map sessionId (conversation_rows (snd (POST e b w))) = map sessionId (conversation_rows w) @ [s]
            \<and> ((\<exists>r. fst (POST e b w) = JsonReply r s) \<or> (\<exists>err. fst (POST e b w) = JsonError 500 err))"
    if "body_sessionId b = Some s \<and> s \<noteq> [] \<and> find (\<lambda>c. sessionId c = s) (conversation_rows w) = None"
    for s
  proof -
    from that have h: "body_sessionId b = Some s" "s \<noteq> []"
      "find (\<lambda>c. sessionId c = s) (conversation_rows w) = None" by simp_all
    note goc = getOrCreate_adopt [OF h, of e]
    show ?thesis by (intro conjI POST_created [OF valid goc(1,2)])
  qed
  have minted: "map sessionId (conversation_rows (snd (POST e b w))) =
              map sessionId (conversation_rows w) @ [randomUUID e]
            \<and> ((\<exists>r. fst (POST e b w) = JsonReply r (randomUUID e))
                \<or> (\<exists>err. fst (POST e b w) = JsonError 500 err))"
    if "\<not> truthy (body_sessionId b) \<and> randomUUID e \<notin> set (map sessionId (conversation_rows w))"
  proof -
    from that have h: "\<not> truthy (body_sessionId b)"
      "randomUUID e \<notin> set (map sessionId (conversation_rows w))" by simp_all
    note goc = getOrCreate_mint [OF h]
    show ?thesis by (intro conjI POST_created [OF valid goc(1,2)])
  qed
  have collision: "fst (POST e b w) = JsonError 500 ''An unexpected error occurred. Please try again.''
            \<and> conversation_rows (snd (POST e b w)) = conversation_rows w
            \<and> message_rows (snd (POST e b w)) = message_rows w"
    if "\<not> truthy (body_sessionId b) \<and> randomUUID e \<in> set (map sessionId (conversation_rows w))"
  proof -
    from that have h: "\<not> truthy (body_sessionId b)"
      "randomUUID e \<in> set (map sessionId (conversation_rows w))" by simp_all
    show ?thesis by (simp add: POST_collision [OF valid h])
  qed
  have token: "t \<noteq> [] \<and> t \<in> set (map sessionId (conversation_rows (snd (POST e b w))))"
    if reply: "fst (POST e b w) = JsonReply r t" for r t
  proof (cases "truthy (body_sessionId b)")
    case True
    then obtain s where s: "body_sessionId b = Some s" "s \<noteq> []"
      by (auto simp add: truthy_def split: option.splits)
    show ?thesis
    proof (cases "find (\<lambda>c. sessionId c = s) (conversation_rows w)")
      case None
      with s adopted [of s] reply show ?thesis by auto
    next
      case (Some c)
      with s found [of s c] reply find_sessionId [OF Some] show ?thesis by auto
    qed
  next
    case False
    show ?thesis
    proof (cases "randomUUID e \<in> set (map sessionId (conversation_rows w))")
      case True
      with False collision reply show ?thesis by simp
    next
      case False
      with \<open>\<not> truthy (body_sessionId b)\<close> minted reply assms(3) show ?thesis by auto
    qed
  qed
  show ?thesis
    by (intro conjI; intro allI impI; erule found adopted minted collision token)
qed


theorem POST_session_resolution_witness:
  "1 \<le> length (message hello_s1) \<and> length (message hello_s1) \<le> 2000
   \<and> randomUUID env0 \<noteq> []
   \<and> (body_sessionId hello_s1 = Some ''s1'' \<and> ''s1'' \<noteq> []
        \<and> find (\<lambda>c. sessionId c = ''s1'') (conversation_rows world1) = Some conv1)
   \<and> map sessionId (conversation_rows (snd (POST env0 hello_s1 world1))) = [''s1'']
   \<and> fst (POST env0 hello_s1 world1) = JsonReply fallbackReply ''s1''"
proof -
  have h1: "1 \<le> length (message hello_s1)" by (simp add: hello_s1_def)
  have h2: "length (message hello_s1) \<le> 2000" by (simp add: hello_s1_def)
  have h3: "randomUUID env0 \<noteq> []" by (simp add: env0_def)
  have h4: "body_sessionId hello_s1 = Some ''s1'' \<and> ''s1'' \<noteq> []
        \<and> find (\<lambda>c. sessionId c = ''s1'') (conversation_rows world1) = Some conv1"
    by (simp add: hello_s1_def world1_def conv1_def)
  from POST_session_resolution [OF h1 h2 h3, of world1]
  have "\<forall>s c. body_sessionId hello_s1 = Some s \<and> s \<noteq> []
             \<and> find (\<lambda>c. sessionId c = s) (conversation_rows world1) = Some c \<longrightarrow>
            map sessionId (conversation_rows (snd (POST env0 hello_s1 world1))) =
              map sessionId (conversation_rows world1)
            \<and> ((\<exists>r. fst (POST env0 hello_s1 world1) = JsonReply r s)
                \<or> (\<exists>err. fst (POST env0 hello_s1 world1) = JsonError 500 err))
            \<and> (\<exists>rest. message_rows (snd (POST env0 hello_s1 world1)) = message_rows world1 @
                   \<lparr>msg_id = cuid world1, conversationId = conv_id c, sender = USER,
                     msg_text = message hello_s1, timestamp = user_message_now env0\<rparr> # rest)"
    by (rule conjunct1)
  with h4 have "map sessionId (conversation_rows (snd (POST env0 hello_s1 world1))) =
              map sessionId (conversation_rows world1)"
    by blast
  then have r1: "map sessionId (conversation_rows (snd (POST env0 hello_s1 world1))) = [''s1'']"
    by (simp add: world1_def conv1_def)
  have r2: "fst (POST env0 hello_s1 world1) = JsonReply fallbackReply ''s1''"
    by (simp add: run_defs hello_s1_def world1_def conv1_def env0_def)
  show ?thesis by (intro conjI h1 h2 h3 h4 r1 r2)
qed

text \<open>
  A token that is sent and not stored is not replaced by a minted one: on the empty store,
  the request with token \<open>s1\<close> creates the conversation under \<open>s1\<close> and is
  answered with \<open>s1\<close>, which is not the UUID at hand.
\<close>

theorem POST_unknown_token_counterexample:
  "body_sessionId hello_s1 = Some ''s1'' \<and> conversation_rows world0 = []
   \<and> fst (POST env0 hello_s1 world0) = JsonReply fallbackReply ''s1''
   \<and> map sessionId (conversation_rows (snd (POST env0 hello_s1 world0))) = [''s1'']
   \<and> randomUUID env0 \<noteq> ''s1''"
  by (simp add: run_defs hello_s1_def world0_def env0_def)

subsection \<open>The update time after a fallback answer (C2)\<close>

text \<open>
  C2 at a request the code answers with the fallback sentence: session \<open>s1\<close> was last
  updated at time 5; a valid request for it arrives at a gateway without credential. The
  assistant's turn is stored, the last call of the request is that insert, and the update
  time is still 5. With a credential and an answering provider, the same request ends with
  the update of the conversation, whose update time becomes 13.
\<close>

theorem POST_fallback_keeps_updatedAt:
  "fst (POST env0 hello_s1 world1) = JsonReply fallbackReply ''s1''
   \<and> map msg_text (message_rows (snd (POST env0 hello_s1 world1))) =
       [''hello'', fallbackReply, ''hello'', fallbackReply]
   \<and> map updatedAt (conversation_rows (snd (POST env0 hello_s1 world1))) = [5]
   \<and> journal (snd (POST env0 hello_s1 world1)) =
       [ConversationFindUnique ''s1'', MessageCreate 0 USER ''hello'', MessageFindMany 0,
        MessageCreate 0 AI fallbackReply]
   \<and> map updatedAt (conversation_rows
         (snd (POST env_ok hello_s1 (world1\<lparr>llmServiceInstance := None\<rparr>)))) = [13]
   \<and> last (journal (snd (POST env_ok hello_s1 (world1\<lparr>llmServiceInstance := None\<rparr>)))) =
       ConversationUpdate 0 13"
  by (simp add: run_defs hello_s1_def world1_def conv1_def env_ok_def env0_def)


subsection \<open>The listing of conversations (C8)\<close>

lemma to_item_logged [simp]: "to_item (logged ev w) = to_item w"
  by (simp add: to_item_def fun_eq_iff)

lemma GET_conversations_items:
  "fst (GET_conversations w) = map (to_item w) (rev (sort_key updatedAt (rev (conversation_rows w))))"
  by (simp add: GET_conversations_def conversation_findMany_def)

lemma GET_conversations_world:
  "snd (GET_conversations w) = logged ConversationFindMany w"
  by (simp add: GET_conversations_def conversation_findMany_def)

lemma item_projections:
  "item_updatedAt \<circ> to_item w = updatedAt"
  "item_sessionId \<circ> to_item w = sessionId"
  by (simp_all add: fun_eq_iff to_item_def)

lemma sort_key_head_least:
  assumes "sort_key f ys = x # xs"
  shows "x \<in> set ys" and "\<forall>y\<in>set ys. f x \<le> f y"
proof -
  have "set (sort_key f ys) = set ys" by simp
  with assms have s: "set ys = insert x (set xs)" by simp
  then show "x \<in> set ys" by simp
  have "sorted (map f (sort_key f ys))" by (rule sorted_sort_key)
  with assms have "\<forall>y\<in>set xs. f x \<le> f y" by simp
  with s show "\<forall>y\<in>set ys. f x \<le> f y" by simp
qed

lemma firstMessage_earliest:
  "(filter (\<lambda>m. conversationId m = conv_id c) (message_rows w) = []
      \<and> firstMessage (to_item w c) = ''New conversation'')
   \<or> (\<exists>m\<in>set (message_rows w). conversationId m = conv_id c
        \<and> (\<forall>m'\<in>set (message_rows w). conversationId m' = conv_id c \<longrightarrow> timestamp m \<le> timestamp m')
        \<and> firstMessage (to_item w c) =
            (if msg_text m = [] then ''New conversation'' else msg_text m))"
proof (cases "messages_of (conv_id c) w")
  case Nil
  then have "set (messages_of (conv_id c) w) = {}" by simp
  then have "filter (\<lambda>m. conversationId m = conv_id c) (message_rows w) = []"
    unfolding messages_of_def set_sort by simp
  with Nil show ?thesis by (simp add: to_item_def)
next
  case (Cons m ms)
  then have srt: "sort_key timestamp (filter (\<lambda>m. conversationId m = conv_id c) (message_rows w)) = m # ms"
    by (simp add: messages_of_def)
  note least = sort_key_head_least [OF srt]
  from least(1) have "m \<in> set (message_rows w)" "conversationId m = conv_id c" by simp_all
  moreover from least(2) have
    "\<forall>m'\<in>set (message_rows w). conversationId m' = conv_id c \<longrightarrow> timestamp m \<le> timestamp m'"
    by simp
  moreover from Cons have "firstMessage (to_item w c) =
      (if msg_text m = [] then ''New conversation'' else msg_text m)"
    by (simp add: to_item_def)
  ultimately show ?thesis by blast
qed

lemma GET_conversations_general:
  shows "sorted (rev (map item_updatedAt (fst (GET_conversations w))))"
    and "mset (map item_sessionId (fst (GET_conversations w))) = mset (map sessionId (conversation_rows w))"
    and "\<forall>it\<in>set (fst (GET_conversations w)).
           messageCount it = length (filter (\<lambda>m. conversationId m = item_id it) (message_rows w))"
    and "\<forall>it\<in>set (fst (GET_conversations w)).
           (filter (\<lambda>m. conversationId m = item_id it) (message_rows w) = []
              \<and> firstMessage it = ''New conversation'')
           \<or> (\<exists>m\<in>set (message_rows w). conversationId m = item_id it
                \<and> (\<forall>m'\<in>set (message_rows w). conversationId m' = item_id it \<longrightarrow> timestamp m \<le> timestamp m')
                \<and> firstMessage it = (if msg_text m = [] then ''New conversation'' else msg_text m))"
    and "conversation_rows (snd (GET_conversations w)) = conversation_rows w"
    and "message_rows (snd (GET_conversations w)) = message_rows w"
proof -
  show "sorted (rev (map item_updatedAt (fst (GET_conversations w))))"
    by (simp add: GET_conversations_items rev_map item_projections)
  show "mset (map item_sessionId (fst (GET_conversations w))) = mset (map sessionId (conversation_rows w))"
    by (simp add: GET_conversations_items item_projections)
  show "\<forall>it\<in>set (fst (GET_conversations w)).
           messageCount it = length (filter (\<lambda>m. conversationId m = item_id it) (message_rows w))"
    by (auto simp add: GET_conversations_items to_item_def)
  show "\<forall>it\<in>set (fst (GET_conversations w)).
           (filter (\<lambda>m. conversationId m = item_id it) (message_rows w) = []
              \<and> firstMessage it = ''New conversation'')
           \<or> (\<exists>m\<in>set (message_rows w). conversationId m = item_id it
                \<and> (\<forall>m'\<in>set (message_rows w). conversationId m' = item_id it \<longrightarrow> timestamp m \<le> timestamp m')
                \<and> firstMessage it = (if msg_text m = [] then ''New conversation'' else msg_text m))"
  proof
    fix it assume "it \<in> set (fst (GET_conversations w))"
    then obtain c where it: "it = to_item w c"
      by (auto simp add: GET_conversations_items)
    have id: "item_id (to_item w c) = conv_id c" by (simp add: to_item_def)
    from firstMessage_earliest [of c w]
    show "(filter (\<lambda>m. conversationId m = item_id it) (message_rows w) = []
              \<and> firstMessage it = ''New conversation'')
           \<or> (\<exists>m\<in>set (message_rows w). conversationId m = item_id it
                \<and> (\<forall>m'\<in>set (message_rows w). conversationId m' = item_id it \<longrightarrow> timestamp m \<le> timestamp m')
                \<and> firstMessage it = (if msg_text m = [] then ''New conversation'' else msg_text m))"
      unfolding it id .
  qed
  show "conversation_rows (snd (GET_conversations w)) = conversation_rows w"
    by (simp add: GET_conversations_world)
  show "message_rows (snd (GET_conversations w)) = message_rows w"
    by (simp add: GET_conversations_world)
qed


text \<open>What a request that is answered with a reply has stored.\<close>

lemma saveAndReply_reply:
  assumes "fst (saveAndReply e b c w2) = JsonReply r t"
  shows "message_rows (snd (saveAndReply e b c w2)) = message_rows w2 @
           [\<lparr>msg_id = cuid w2, conversationId = conv_id c, sender = USER,
             msg_text = message b, timestamp = user_message_now e\<rparr>,
            \<lparr>msg_id = Suc (cuid w2), conversationId = conv_id c, sender = AI,
             msg_text = r, timestamp = ai_message_now e\<rparr>]"
    and "conversation_rows (snd (saveAndReply e b c w2)) = conversation_rows w2
         \<or> conversation_rows (snd (saveAndReply e b c w2)) =
             map (\<lambda>x. if conv_id x = conv_id c then x\<lparr>updatedAt := update_now e\<rparr> else x)
               (conversation_rows w2)"
    and "cuid (snd (saveAndReply e b c w2)) = Suc (Suc (cuid w2))"
    and "t = sessionId c"
proof -
  let ?w3 = "message_create (conv_id c) USER (message b) (user_message_now e) w2"
  let ?h = "fst (message_findMany (conv_id c) ?w3)"
  let ?w5 = "snd (getLLMService e (logged (MessageFindMany (conv_id c)) ?w3))"
  let ?svc = "fst (getLLMService e w2)"
  let ?g = "generateReply ?svc e ?h (message b) ?w5"
  consider (off) "\<not> isConfigured ?svc"
    | (err) "isConfigured ?svc" "truthy (snd (fst ?g))"
    | (ok) "isConfigured ?svc" "\<not> truthy (snd (fst ?g))"
    by blast
  then have "message_rows (snd (saveAndReply e b c w2)) = message_rows w2 @
           [\<lparr>msg_id = cuid w2, conversationId = conv_id c, sender = USER,
             msg_text = message b, timestamp = user_message_now e\<rparr>,
            \<lparr>msg_id = Suc (cuid w2), conversationId = conv_id c, sender = AI,
             msg_text = r, timestamp = ai_message_now e\<rparr>]
     \<and> (conversation_rows (snd (saveAndReply e b c w2)) = conversation_rows w2
         \<or> conversation_rows (snd (saveAndReply e b c w2)) =
             map (\<lambda>x. if conv_id x = conv_id c then x\<lparr>updatedAt := update_now e\<rparr> else x)
               (conversation_rows w2))
     \<and> cuid (snd (saveAndReply e b c w2)) = Suc (Suc (cuid w2))
     \<and> t = sessionId c"
  proof cases
    case off
    then have "saveAndReply e b c w2 =
        (JsonReply fallbackReply (sessionId c),
         message_create (conv_id c) AI fallbackReply (ai_message_now e) ?w5)"
      by (simp add: saveAndReply_def Let_def split_beta)
    with assms show ?thesis by simp
  next
    case err
    then have "saveAndReply e b c w2 = (JsonError 500 (the (snd (fst ?g))), snd ?g)"
      by (simp add: saveAndReply_def Let_def split_beta)
    with assms show ?thesis by simp
  next
    case ok
    then have "saveAndReply e b c w2 =
        (JsonReply (fst (fst ?g)) (sessionId c),
         conversation_update (conv_id c) (update_now e)
           (message_create (conv_id c) AI (fst (fst ?g)) (ai_message_now e) (snd ?g)))"
      by (simp add: saveAndReply_def Let_def split_beta)
    with assms show ?thesis by simp
  qed
  then show "message_rows (snd (saveAndReply e b c w2)) = message_rows w2 @
           [\<lparr>msg_id = cuid w2, conversationId = conv_id c, sender = USER,
             msg_text = message b, timestamp = user_message_now e\<rparr>,
            \<lparr>msg_id = Suc (cuid w2), conversationId = conv_id c, sender = AI,
             msg_text = r, timestamp = ai_message_now e\<rparr>]"
    and "conversation_rows (snd (saveAndReply e b c w2)) = conversation_rows w2
         \<or> conversation_rows (snd (saveAndReply e b c w2)) =
             map (\<lambda>x. if conv_id x = conv_id c then x\<lparr>updatedAt := update_now e\<rparr> else x)
               (conversation_rows w2)"
    and "cuid (snd (saveAndReply e b c w2)) = Suc (Suc (cuid w2))"
    and "t = sessionId c"
    by simp_all
qed

text \<open>
  A replied request whose token is not stored, on a table whose keys are all below the
  counter: the table gains one row, updated at the insert or at the bump.
\<close>

lemma POST_reply_new_session:
  assumes "1 \<le> length (message b)" and "length (message b) \<le> 2000"
    and "body_sessionId b = Some s" and "s \<noteq> []"
    and "s \<notin> set (map sessionId (conversation_rows w))"
    and "\<forall>x\<in>set (conversation_rows w). conv_id x < cuid w"
    and "fst (POST e b w) = JsonReply r t"
  shows "\<exists>u. (u = conversation_now e \<or> u = update_now e)
           \<and> conversation_rows (snd (POST e b w)) = conversation_rows w @
               [\<lparr>conv_id = cuid w, sessionId = s, createdAt = conversation_now e, updatedAt = u\<rparr>]"
    and "message_rows (snd (POST e b w)) = message_rows w @
           [\<lparr>msg_id = Suc (cuid w), conversationId = cuid w, sender = USER,
             msg_text = message b, timestamp = user_message_now e\<rparr>,
            \<lparr>msg_id = Suc (Suc (cuid w)), conversationId = cuid w, sender = AI,
             msg_text = r, timestamp = ai_message_now e\<rparr>]"
    and "cuid (snd (POST e b w)) = Suc (Suc (Suc (cuid w)))"
proof -
  let ?c = "\<lparr>conv_id = cuid w, sessionId = s, createdAt = conversation_now e,
             updatedAt = conversation_now e\<rparr>"
  let ?w2 = "snd (getOrCreateConversation e b w)"
  have none: "find (\<lambda>c. sessionId c = s) (conversation_rows w) = None"
    using assms(5) by (simp add: find_None_sessionId)
  note goc = getOrCreate_adopt [OF assms(3,4) none, of e]
  have post: "POST e b w = saveAndReply e b ?c ?w2"
    using assms(1,2) goc(1) by (rule POST_valid)
  from assms(7) have reply: "fst (saveAndReply e b ?c ?w2) = JsonReply r t"
    by (simp add: post)
  note sr = saveAndReply_reply [OF reply]
  have keep: "map (\<lambda>x. if conv_id x = cuid w then x\<lparr>updatedAt := update_now e\<rparr> else x)
                (conversation_rows w) = conversation_rows w"
    using assms(6) by (intro map_idI) auto
  from sr(2) show "\<exists>u. (u = conversation_now e \<or> u = update_now e)
           \<and> conversation_rows (snd (POST e b w)) = conversation_rows w @
               [\<lparr>conv_id = cuid w, sessionId = s, createdAt = conversation_now e, updatedAt = u\<rparr>]"
    by (auto simp add: post goc(2) keep)
  from sr(1) show "message_rows (snd (POST e b w)) = message_rows w @
           [\<lparr>msg_id = Suc (cuid w), conversationId = cuid w, sender = USER,
             msg_text = message b, timestamp = user_message_now e\<rparr>,
            \<lparr>msg_id = Suc (Suc (cuid w)), conversationId = cuid w, sender = AI,
             msg_text = r, timestamp = ai_message_now e\<rparr>]"
    by (simp add: post goc(3))
  from sr(3) show "cuid (snd (POST e b w)) = Suc (Suc (Suc (cuid w)))"
    by (simp add: post goc(3))
qed


lemma POST_reply_known_session:
  assumes "1 \<le> length (message b)" and "length (message b) \<le> 2000"
    and "body_sessionId b = Some s" and "s \<noteq> []"
    and "find (\<lambda>c. sessionId c = s) (conversation_rows w) = Some c"
    and "fst (POST e b w) = JsonReply r t"
  shows "conversation_rows (snd (POST e b w)) = conversation_rows w
         \<or> conversation_rows (snd (POST e b w)) =
             map (\<lambda>x. if conv_id x = conv_id c then x\<lparr>updatedAt := update_now e\<rparr> else x)
               (conversation_rows w)"
    and "message_rows (snd (POST e b w)) = message_rows w @
           [\<lparr>msg_id = cuid w, conversationId = conv_id c, sender = USER,
             msg_text = message b, timestamp = user_message_now e\<rparr>,
            \<lparr>msg_id = Suc (cuid w), conversationId = conv_id c, sender = AI,
             msg_text = r, timestamp = ai_message_now e\<rparr>]"
    and "cuid (snd (POST e b w)) = Suc (Suc (cuid w))"
proof -
  let ?w2 = "logged (ConversationFindUnique s) w"
  note goc = getOrCreate_found [OF assms(3-5), of e]
  have post: "POST e b w = saveAndReply e b c ?w2"
    using POST_valid [OF assms(1,2), of e w c] goc by simp
  from assms(6) have reply: "fst (saveAndReply e b c ?w2) = JsonReply r t"
    by (simp add: post)
  note sr = saveAndReply_reply [OF reply]
  from sr(2) show "conversation_rows (snd (POST e b w)) = conversation_rows w
         \<or> conversation_rows (snd (POST e b w)) =
             map (\<lambda>x. if conv_id x = conv_id c then x\<lparr>updatedAt := update_now e\<rparr> else x)
               (conversation_rows w)"
    by (simp add: post)
  from sr(1) show "message_rows (snd (POST e b w)) = message_rows w @
           [\<lparr>msg_id = cuid w, conversationId = conv_id c, sender = USER,
             msg_text = message b, timestamp = user_message_now e\<rparr>,
            \<lparr>msg_id = Suc (cuid w), conversationId = conv_id c, sender = AI,
             msg_text = r, timestamp = ai_message_now e\<rparr>]"
    by (simp add: post)
  from sr(3) show "cuid (snd (POST e b w)) = Suc (Suc (cuid w))"
    by (simp add: post)
qed

text \<open>
  Two replied messages in one session, then one replied message in another, from empty
  tables, with every clock reading of the third request later than the readings that can
  stamp the first session: the second session is listed first, with 2 messages, then the
  first session, with 4.
\<close>

lemma listing_after_three:
  assumes empty: "conversation_rows w0 = []" "message_rows w0 = []"
    and tokens: "body_sessionId b1 = Some sa" "body_sessionId b2 = Some sa"
                "body_sessionId b3 = Some sb" "sa \<noteq> []" "sb \<noteq> []" "sa \<noteq> sb"
    and valid: "1 \<le> length (message b1)" "length (message b1) \<le> 2000"
               "1 \<le> length (message b2)" "length (message b2) \<le> 2000"
               "1 \<le> length (message b3)" "length (message b3) \<le> 2000"
    and replies: "fst (POST e1 b1 w0) = JsonReply r1 t1"
                 "fst (POST e2 b2 (snd (POST e1 b1 w0))) = JsonReply r2 t2"
                 "fst (POST e3 b3 (snd (POST e2 b2 (snd (POST e1 b1 w0))))) = JsonReply r3 t3"
    and clock: "conversation_now e1 < conversation_now e3" "update_now e1 < conversation_now e3"
               "update_now e2 < conversation_now e3" "conversation_now e3 \<le> update_now e3"
  shows "map item_sessionId
           (fst (GET_conversations (snd (POST e3 b3 (snd (POST e2 b2 (snd (POST e1 b1 w0)))))))) = [sb, sa]"
    and "map messageCount
           (fst (GET_conversations (snd (POST e3 b3 (snd (POST e2 b2 (snd (POST e1 b1 w0)))))))) = [2, 4]"
proof -
  let ?w1 = "snd (POST e1 b1 w0)"
  let ?w2 = "snd (POST e2 b2 ?w1)"
  let ?w3 = "snd (POST e3 b3 ?w2)"
  let ?n = "cuid w0"
  \<comment> \<open>first request: the session is created\<close>
  have fresh1: "sa \<notin> set (map sessionId (conversation_rows w0))"
    and below1: "\<forall>x\<in>set (conversation_rows w0). conv_id x < cuid w0"
    by (simp_all add: empty)
  note s1 = POST_reply_new_session [OF valid(1,2) tokens(1,4) fresh1 below1 replies(1)]
  from s1(1) obtain u1 where u1: "u1 = conversation_now e1 \<or> u1 = update_now e1"
    and rows1: "conversation_rows ?w1 =
                  [\<lparr>conv_id = ?n, sessionId = sa, createdAt = conversation_now e1, updatedAt = u1\<rparr>]"
    by (auto simp add: empty)
  let ?c1 = "\<lparr>conv_id = ?n, sessionId = sa, createdAt = conversation_now e1, updatedAt = u1\<rparr>"
  have msgs1: "message_rows ?w1 =
      [\<lparr>msg_id = Suc ?n, conversationId = ?n, sender = USER,
        msg_text = message b1, timestamp = user_message_now e1\<rparr>,
       \<lparr>msg_id = Suc (Suc ?n), conversationId = ?n, sender = AI,
        msg_text = r1, timestamp = ai_message_now e1\<rparr>]"
    using s1(2) by (simp add: empty)
  note cuid1 = s1(3)
  \<comment> \<open>second request: the session is found\<close>
  have found2: "find (\<lambda>c. sessionId c = sa) (conversation_rows ?w1) = Some ?c1"
    by (simp add: rows1)
  note s2 = POST_reply_known_session [OF valid(3,4) tokens(2,4) found2 replies(2)]
  from s2(1) obtain u2 where u2: "u2 = u1 \<or> u2 = update_now e2"
    and rows2: "conversation_rows ?w2 =
                  [\<lparr>conv_id = ?n, sessionId = sa, createdAt = conversation_now e1, updatedAt = u2\<rparr>]"
    by (auto simp add: rows1)
  have msgs2: "message_rows ?w2 = message_rows ?w1 @
      [\<lparr>msg_id = Suc (Suc (Suc ?n)), conversationId = ?n, sender = USER,
        msg_text = message b2, timestamp = user_message_now e2\<rparr>,
       \<lparr>msg_id = Suc (Suc (Suc (Suc ?n))), conversationId = ?n, sender = AI,
        msg_text = r2, timestamp = ai_message_now e2\<rparr>]"
    using s2(2) by (simp add: cuid1)
  have cuid2: "cuid ?w2 = Suc (Suc (Suc (Suc (Suc ?n))))"
    using s2(3) by (simp add: cuid1)
  \<comment> \<open>third request: the other session is created\<close>
  have fresh3: "sb \<notin> set (map sessionId (conversation_rows ?w2))"
    using tokens(6) by (auto simp add: rows2)
  have below3: "\<forall>x\<in>set (conversation_rows ?w2). conv_id x < cuid ?w2"
    by (simp add: rows2 cuid2)
  note s3 = POST_reply_new_session [OF valid(5,6) tokens(3,5) fresh3 below3 replies(3)]
  from s3(1) obtain u3 where u3: "u3 = conversation_now e3 \<or> u3 = update_now e3"
    and rows3: "conversation_rows ?w3 =
                  [\<lparr>conv_id = ?n, sessionId = sa, createdAt = conversation_now e1, updatedAt = u2\<rparr>,
                   \<lparr>conv_id = Suc (Suc (Suc (Suc (Suc ?n)))), sessionId = sb,
                     createdAt = conversation_now e3, updatedAt = u3\<rparr>]"
    by (auto simp add: rows2 cuid2)
  have msgs3: "message_rows ?w3 = message_rows ?w2 @
      [\<lparr>msg_id = Suc (cuid ?w2), conversationId = Suc (Suc (Suc (Suc (Suc ?n)))), sender = USER,
        msg_text = message b3, timestamp = user_message_now e3\<rparr>,
       \<lparr>msg_id = Suc (Suc (cuid ?w2)), conversationId = Suc (Suc (Suc (Suc (Suc ?n)))), sender = AI,
        msg_text = r3, timestamp = ai_message_now e3\<rparr>]"
    using s3(2) by (simp add: cuid2)
  \<comment> \<open>the listing\<close>
  from u1 u2 u3 clock have later: "u2 < u3" by auto
  then have order: "rev (sort_key updatedAt (rev (conversation_rows ?w3))) =
      [\<lparr>conv_id = Suc (Suc (Suc (Suc (Suc ?n)))), sessionId = sb,
        createdAt = conversation_now e3, updatedAt = u3\<rparr>,
       \<lparr>conv_id = ?n, sessionId = sa, createdAt = conversation_now e1, updatedAt = u2\<rparr>]"
    by (simp add: rows3)
  show "map item_sessionId (fst (GET_conversations ?w3)) = [sb, sa]"
    by (simp add: GET_conversations_items order to_item_def)
  show "map messageCount (fst (GET_conversations ?w3)) = [2, 4]"
    by (simp add: GET_conversations_items order to_item_def msgs3 msgs2 msgs1)
qed


text \<open>
  C8, as the code has it: the listing holds every conversation once, most recently updated
  first; \<open>messageCount\<close> is the number of all stored messages of the conversation,
  the user's and the assistant's; \<open>firstMessage\<close> is the text of a message of the
  conversation with the least timestamp, or \<open>New conversation\<close> when there is no
  message or that text is empty; the tables are not changed. In particular, after two
  messages sent in one session and then one in another, starting from empty tables, each
  of them answered with a reply, on a clock that has moved on before the third request,
  the listing shows the second session before the first, with 2 and 4 messages.
\<close>

theorem GET_conversations_listing:
  "sorted (rev (map item_updatedAt (fst (GET_conversations w))))
   \<and> mset (map item_sessionId (fst (GET_conversations w))) = mset (map sessionId (conversation_rows w))
   \<and> (\<forall>it\<in>set (fst (GET_conversations w)).
         messageCount it = length (filter (\<lambda>m. conversationId m = item_id it) (message_rows w)))
   \<and> (\<forall>it\<in>set (fst (GET_conversations w)).
         (filter (\<lambda>m. conversationId m = item_id it) (message_rows w) = []
            \<and> firstMessage it = ''New conversation'')
         \<or> (\<exists>m\<in>set (message_rows w). conversationId m = item_id it
              \<and> (\<forall>m'\<in>set (message_rows w). conversationId m' = item_id it \<longrightarrow> timestamp m \<le> timestamp m')
              \<and> firstMessage it = (if msg_text m = [] then ''New conversation'' else msg_text m)))
   \<and> conversation_rows (snd (GET_conversations w)) = conversation_rows w
   \<and> message_rows (snd (GET_conversations w)) = message_rows w
   \<and> (conversation_rows w0 = [] \<and> message_rows w0 = []
        \<and> body_sessionId b1 = Some sa \<and> body_sessionId b2 = Some sa \<and> body_sessionId b3 = Some sb
        \<and> sa \<noteq> [] \<and> sb \<noteq> [] \<and> sa \<noteq> sb
        \<and> 1 \<le> length (message b1) \<and> length (message b1) \<le> 2000
        \<and> 1 \<le> length (message b2) \<and> length (message b2) \<le> 2000
        \<and> 1 \<le> length (message b3) \<and> length (message b3) \<le> 2000
        \<and> fst (POST e1 b1 w0) = JsonReply r1 t1
        \<and> fst (POST e2 b2 (snd (POST e1 b1 w0))) = JsonReply r2 t2
        \<and> fst (POST e3 b3 (snd (POST e2 b2 (snd (POST e1 b1 w0))))) = JsonReply r3 t3
        \<and> conversation_now e1 < conversation_now e3 \<and> update_now e1 < conversation_now e3
        \<and> update_now e2 < conversation_now e3 \<and> conversation_now e3 \<le> update_now e3
      \<longrightarrow>
        map item_sessionId
          (fst (GET_conversations (snd (POST e3 b3 (snd (POST e2 b2 (snd (POST e1 b1 w0)))))))) = [sb, sa]
        \<and> map messageCount
          (fst (GET_conversations (snd (POST e3 b3 (snd (POST e2 b2 (snd (POST e1 b1 w0)))))))) = [2, 4])"
proof (intro conjI impI)
  assume "conversation_rows w0 = [] \<and> message_rows w0 = []
        \<and> body_sessionId b1 = Some sa \<and> body_sessionId b2 = Some sa \<and> body_sessionId b3 = Some sb
        \<and> sa \<noteq> [] \<and> sb \<noteq> [] \<and> sa \<noteq> sb
        \<and> 1 \<le> length (message b1) \<and> length (message b1) \<le> 2000
        \<and> 1 \<le> length (message b2) \<and> length (message b2) \<le> 2000
        \<and> 1 \<le> length (message b3) \<and> length (message b3) \<le> 2000
        \<and> fst (POST e1 b1 w0) = JsonReply r1 t1
        \<and> fst (POST e2 b2 (snd (POST e1 b1 w0))) = JsonReply r2 t2
        \<and> fst (POST e3 b3 (snd (POST e2 b2 (snd (POST e1 b1 w0))))) = JsonReply r3 t3
        \<and> conversation_now e1 < conversation_now e3 \<and> update_now e1 < conversation_now e3
        \<and> update_now e2 < conversation_now e3 \<and> conversation_now e3 \<le> update_now e3"
  then have a: "conversation_rows w0 = []" "message_rows w0 = []"
      "body_sessionId b1 = Some sa" "body_sessionId b2 = Some sa" "body_sessionId b3 = Some sb"
      "sa \<noteq> []" "sb \<noteq> []" "sa \<noteq> sb"
      "1 \<le> length (message b1)" "length (message b1) \<le> 2000"
      "1 \<le> length (message b2)" "length (message b2) \<le> 2000"
      "1 \<le> length (message b3)" "length (message b3) \<le> 2000"
      "fst (POST e1 b1 w0) = JsonReply r1 t1"
      "fst (POST e2 b2 (snd (POST e1 b1 w0))) = JsonReply r2 t2"
      "fst (POST e3 b3 (snd (POST e2 b2 (snd (POST e1 b1 w0))))) = JsonReply r3 t3"
      "conversation_now e1 < conversation_now e3" "update_now e1 < conversation_now e3"
      "update_now e2 < conversation_now e3" "conversation_now e3 \<le> update_now e3"
    by simp_all
  note scenario = listing_after_three [OF a]
  show "map item_sessionId
          (fst (GET_conversations (snd (POST e3 b3 (snd (POST e2 b2 (snd (POST e1 b1 w0)))))))) = [sb, sa]"
    by (rule scenario(1))
  show "map messageCount
          (fst (GET_conversations (snd (POST e3 b3 (snd (POST e2 b2 (snd (POST e1 b1 w0)))))))) = [2, 4]"
    by (rule scenario(2))
qed (rule GET_conversations_general)+

text \<open>
  The three exchanges of the sample, answered with the fallback sentence: the listing
  shows \<open>s2\<close> before \<open>s1\<close>, and the counts are 2 and 4, not 1 and 2.
\<close>

theorem listing_counts_counterexample:
  "map item_sessionId (fst (GET_conversations three_sent)) = [''s2'', ''s1'']
   \<and> map messageCount (fst (GET_conversations three_sent)) = [2, 4]
   \<and> map messageCount (fst (GET_conversations three_sent)) \<noteq> [1, 2]"
  by (simp add: three_sent_def GET_conversations_def conversation_findMany_def to_item_def
        run_defs hello_s1_def again_s1_def hi_s2_def world0_def env0_def env_mid_def env_late_def)


theorem GET_conversations_listing_witness:
  "fst (POST env0 hello_s1 world0) = JsonReply fallbackReply ''s1''
   \<and> fst (POST env_mid again_s1 (snd (POST env0 hello_s1 world0))) = JsonReply fallbackReply ''s1''
   \<and> fst (POST env_late hi_s2 (snd (POST env_mid again_s1 (snd (POST env0 hello_s1 world0)))))
       = JsonReply fallbackReply ''s2''
   \<and> map item_sessionId (fst (GET_conversations three_sent)) = [''s2'', ''s1'']
   \<and> map messageCount (fst (GET_conversations three_sent)) = [2, 4]
   \<and> sorted (rev (map item_updatedAt (fst (GET_conversations three_sent))))"
proof -
  have r1: "fst (POST env0 hello_s1 world0) = JsonReply fallbackReply ''s1''"
    by (simp add: run_defs hello_s1_def world0_def env0_def)
  have r2: "fst (POST env_mid again_s1 (snd (POST env0 hello_s1 world0))) = JsonReply fallbackReply ''s1''"
    by (simp add: run_defs hello_s1_def again_s1_def world0_def env0_def env_mid_def)
  have r3: "fst (POST env_late hi_s2 (snd (POST env_mid again_s1 (snd (POST env0 hello_s1 world0)))))
       = JsonReply fallbackReply ''s2''"
    by (simp add: run_defs hello_s1_def again_s1_def hi_s2_def world0_def env0_def env_mid_def
          env_late_def)
  have given: "conversation_rows world0 = [] \<and> message_rows world0 = []
        \<and> body_sessionId hello_s1 = Some ''s1'' \<and> body_sessionId again_s1 = Some ''s1''
        \<and> body_sessionId hi_s2 = Some ''s2''
        \<and> ''s1'' \<noteq> [] \<and> ''s2'' \<noteq> [] \<and> ''s1'' \<noteq> ''s2''
        \<and> 1 \<le> length (message hello_s1) \<and> length (message hello_s1) \<le> 2000
        \<and> 1 \<le> length (message again_s1) \<and> length (message again_s1) \<le> 2000
        \<and> 1 \<le> length (message hi_s2) \<and> length (message hi_s2) \<le> 2000
        \<and> fst (POST env0 hello_s1 world0) = JsonReply fallbackReply ''s1''
        \<and> fst (POST env_mid again_s1 (snd (POST env0 hello_s1 world0))) = JsonReply fallbackReply ''s1''
        \<and> fst (POST env_late hi_s2 (snd (POST env_mid again_s1 (snd (POST env0 hello_s1 world0)))))
            = JsonReply fallbackReply ''s2''
        \<and> conversation_now env0 < conversation_now env_late \<and> update_now env0 < conversation_now env_late
        \<and> update_now env_mid < conversation_now env_late \<and> conversation_now env_late \<le> update_now env_late"
    unfolding r1 r2 r3
    by (simp add: hello_s1_def again_s1_def hi_s2_def world0_def env0_def env_mid_def env_late_def)
  note inst = GET_conversations_listing [where w = three_sent and ?w0.0 = world0
      and ?b1.0 = hello_s1 and ?b2.0 = again_s1 and ?b3.0 = hi_s2 and sa = "''s1''" and sb = "''s2''"
      and ?e1.0 = env0 and ?e2.0 = env_mid and ?e3.0 = env_late
      and ?r1.0 = fallbackReply and ?r2.0 = fallbackReply and ?r3.0 = fallbackReply
      and ?t1.0 = "''s1''" and ?t2.0 = "''s1''" and ?t3.0 = "''s2''"]
  from inst have srt: "sorted (rev (map item_updatedAt (fst (GET_conversations three_sent))))"
    by (rule conjunct1)
  from inst given have listed:
    "map item_sessionId (fst (GET_conversations (snd (POST env_late hi_s2
        (snd (POST env_mid again_s1 (snd (POST env0 hello_s1 world0)))))))) = [''s2'', ''s1'']
     \<and> map messageCount (fst (GET_conversations (snd (POST env_late hi_s2
        (snd (POST env_mid again_s1 (snd (POST env0 hello_s1 world0)))))))) = [2, 4]"
    by (elim conjE impE) (assumption | rule conjI)+
  then have l1: "map item_sessionId (fst (GET_conversations three_sent)) = [''s2'', ''s1'']"
    and l2: "map messageCount (fst (GET_conversations three_sent)) = [2, 4]"
    by (simp_all add: three_sent_def)
  show ?thesis by (intro conjI r1 r2 r3 l1 l2 srt)
qed


end
